theory Spec2Isabelle
  imports Complex_Main
begin

section \<open>JavaScript numbers\<close>

text \<open>
  The calculator computes with JavaScript numbers. A number is modelled as one of the
  three special values of IEEE 754 or a finite value, which is held as a real: rounding,
  overflow to infinity and the sign of zero are abstracted away, every other rule of the
  arithmetic of the language is written out (an operation on \<open>NaN\<close> gives \<open>NaN\<close>,
  \<open>0 / 0\<close> is \<open>NaN\<close>, \<open>x / 0\<close> is an infinity, a comparison with \<open>NaN\<close> is false).
  Every zero divisor of the program is the result of \<open>x - x\<close> and so the positive zero.

  On exact reals the installment repays a loan exactly in the last month of the tenure. So
  on a valid input the test \<open>balanceRegular - principalComp < 0\<close> of strategy A is never
  true here, while the rounded numbers of the program can make it true in the last month.
  What is proved below for a positive interest rate from that exactness is a property of this
  model of exact reals.
\<close>

datatype jsnum = NaN | PInf | NInf | Fin real

fun jneg :: "jsnum \<Rightarrow> jsnum" where
  "jneg NaN = NaN"
| "jneg PInf = NInf"
| "jneg NInf = PInf"
| "jneg (Fin a) = Fin (- a)"

fun jadd :: "jsnum \<Rightarrow> jsnum \<Rightarrow> jsnum" where
  "jadd (Fin a) (Fin b) = Fin (a + b)"
| "jadd NaN _ = NaN"
| "jadd _ NaN = NaN"
| "jadd PInf NInf = NaN"
| "jadd NInf PInf = NaN"
| "jadd PInf _ = PInf"
| "jadd NInf _ = NInf"
| "jadd _ PInf = PInf"
| "jadd _ NInf = NInf"

definition jsub :: "jsnum \<Rightarrow> jsnum \<Rightarrow> jsnum" where
  "jsub a b = jadd a (jneg b)"

text \<open>The sign of a number that is not \<open>NaN\<close>: \<open>-1\<close>, \<open>0\<close> or \<open>1\<close>.\<close>

fun jsign :: "jsnum \<Rightarrow> int" where
  "jsign NaN = 0"
| "jsign PInf = 1"
| "jsign NInf = - 1"
| "jsign (Fin a) = (if a = 0 then 0 else if 0 < a then 1 else - 1)"

fun jmul :: "jsnum \<Rightarrow> jsnum \<Rightarrow> jsnum" where
  "jmul (Fin a) (Fin b) = Fin (a * b)"
| "jmul NaN _ = NaN"
| "jmul _ NaN = NaN"
| "jmul a b =
     (if jsign a * jsign b = 0 then NaN
      else if 0 < jsign a * jsign b then PInf else NInf)"

fun jdiv :: "jsnum \<Rightarrow> jsnum \<Rightarrow> jsnum" where
  "jdiv NaN _ = NaN"
| "jdiv _ NaN = NaN"
| "jdiv (Fin a) (Fin b) =
     (if b \<noteq> 0 then Fin (a / b)
      else if a = 0 then NaN
      else if 0 < a then PInf else NInf)"
| "jdiv (Fin a) _ = Fin 0"
| "jdiv PInf (Fin b) = (if 0 \<le> b then PInf else NInf)"
| "jdiv NInf (Fin b) = (if 0 \<le> b then NInf else PInf)"
| "jdiv _ _ = NaN"

text \<open>\<open>a < b\<close>; \<open>a > b\<close> is \<open>jlt b a\<close>.\<close>

fun jlt :: "jsnum \<Rightarrow> jsnum \<Rightarrow> bool" where
  "jlt NaN _ = False"
| "jlt _ NaN = False"
| "jlt (Fin a) (Fin b) = (a < b)"
| "jlt PInf _ = False"
| "jlt _ NInf = False"
| "jlt NInf _ = True"
| "jlt _ PInf = True"

definition jgt :: "jsnum \<Rightarrow> jsnum \<Rightarrow> bool" where
  "jgt a b = jlt b a"

text \<open>\<open>a <= b\<close> and \<open>a === b\<close>: both false when either side is \<open>NaN\<close>.\<close>

fun jle :: "jsnum \<Rightarrow> jsnum \<Rightarrow> bool" where
  "jle NaN _ = False"
| "jle _ NaN = False"
| "jle (Fin a) (Fin b) = (a \<le> b)"
| "jle NInf _ = True"
| "jle _ PInf = True"
| "jle _ _ = False"

fun jeq :: "jsnum \<Rightarrow> jsnum \<Rightarrow> bool" where
  "jeq NaN _ = False"
| "jeq _ NaN = False"
| "jeq a b = (a = b)"

text \<open>\<open>Math.max(a, b)\<close>, \<open>Math.abs(a)\<close>.\<close>

fun jmax :: "jsnum \<Rightarrow> jsnum \<Rightarrow> jsnum" where
  "jmax NaN _ = NaN"
| "jmax _ NaN = NaN"
| "jmax a b = (if jlt a b then b else a)"

fun jabs :: "jsnum \<Rightarrow> jsnum" where
  "jabs NaN = NaN"
| "jabs PInf = PInf"
| "jabs NInf = PInf"
| "jabs (Fin a) = Fin \<bar>a\<bar>"

text \<open>
  \<open>Math.pow(b, n)\<close> for an integer exponent \<open>n\<close>: the exponent \<open>0\<close> gives \<open>1\<close> for every
  base, \<open>NaN\<close> included; a zero base with a negative exponent gives \<open>+Infinity\<close>.
\<close>

fun jpow :: "jsnum \<Rightarrow> int \<Rightarrow> jsnum" where
  "jpow b n =
     (if n = 0 then Fin 1
      else case b of
        NaN \<Rightarrow> NaN
      | PInf \<Rightarrow> (if 0 < n then PInf else Fin 0)
      | NInf \<Rightarrow> (if n < 0 then Fin 0 else if odd n then NInf else PInf)
      | Fin a \<Rightarrow>
          (if 0 < n then Fin (a ^ nat n)
           else if a = 0 then PInf
           else Fin (1 / a ^ nat (- n))))"

section \<open>The data model\<close>

text \<open>
  The interfaces \<open>LoanInput\<close>, \<open>MonthlyData\<close> and \<open>SimulationResult\<close> of the types
  module, field by field. Every field is a \<open>number\<close> there. The model is narrower for the
  input: \<open>tenureYears\<close> is a whole number of years, as the data model has it, and the other
  inputs are finite. The form fields of the application refuse \<open>NaN\<close>, but they can send a
  tenure with a fraction, and an infinity for a number of more than 308 digits: a tenure
  with a fraction, \<open>NaN\<close> and the infinities as inputs are outside the model.
\<close>

record LoanInput =
  principal :: real
  interestRate :: real
  tenureYears :: int
  sipReturnRate :: real
  extraEmiPerYear :: real
  stepUpPercentage :: real

text \<open>
  One element of \<open>monthlyData\<close>. The fields carry the prefix \<open>md_\<close>: four of them have
  the names of the loop's variables.
\<close>

record MonthlyData =
  md_month :: int
  md_year :: int
  md_loanBalanceRegular :: jsnum
  md_loanBalanceAggressive :: jsnum
  md_sipValueRegular :: jsnum
  md_sipValueAggressive :: jsnum
  md_cumulativeInterestRegular :: jsnum
  md_cumulativeInterestAggressive :: jsnum
  md_totalInvestedRegular :: jsnum
  md_totalInvestedAggressive :: jsnum

datatype Strategy = Prepay | Invest

record Summary =
  regularTotalInterest :: jsnum
  aggressiveTotalInterest :: jsnum
  regularTenureMonths :: int
  aggressiveTenureMonths :: int
  interestSaved :: jsnum
  finalWealthRegular :: jsnum
  finalWealthAggressive :: jsnum
  totalAmountInvestedRegular :: jsnum
  totalAmountInvestedAggressive :: jsnum
  winningStrategy :: Strategy
  netWealthDifference :: jsnum

record SimulationResult =
  monthlyData :: "MonthlyData list"
  summary :: Summary

text \<open>The variables that \<open>calculateScenario\<close> declares with \<open>let\<close> before its loop.\<close>

record State =
  balanceRegular :: jsnum
  balanceAggressive :: jsnum
  sipValueRegular :: jsnum
  sipValueAggressive :: jsnum
  totalInvestedRegular :: jsnum
  totalInvestedAggressive :: jsnum
  totalInterestRegular :: jsnum
  totalInterestAggressive :: jsnum
  aggressiveClosedMonth :: int
  regularClosedMonth :: int
  isAggressiveClosed :: bool
  isRegularClosed :: bool
  data :: "MonthlyData list"

section \<open>calculateScenario\<close>

subsection \<open>The constants computed before the loop\<close>

definition monthlyRate :: "LoanInput \<Rightarrow> jsnum" where
  "monthlyRate inp = jdiv (jdiv (Fin (interestRate inp)) (Fin 12)) (Fin 100)"

definition totalMonths :: "LoanInput \<Rightarrow> int" where
  "totalMonths inp = tenureYears inp * 12"

definition sipMonthlyRate :: "LoanInput \<Rightarrow> jsnum" where
  "sipMonthlyRate inp = jdiv (jdiv (Fin (sipReturnRate inp)) (Fin 12)) (Fin 100)"

definition baseEmi :: "LoanInput \<Rightarrow> jsnum" where
  "baseEmi inp =
     jdiv
       (jmul (jmul (Fin (principal inp)) (monthlyRate inp))
          (jpow (jadd (Fin 1) (monthlyRate inp)) (totalMonths inp)))
       (jsub (jpow (jadd (Fin 1) (monthlyRate inp)) (totalMonths inp)) (Fin 1))"

definition initState :: "LoanInput \<Rightarrow> State" where
  "initState inp =
     \<lparr> balanceRegular = Fin (principal inp),
       balanceAggressive = Fin (principal inp),
       sipValueRegular = Fin 0,
       sipValueAggressive = Fin 0,
       totalInvestedRegular = Fin 0,
       totalInvestedAggressive = Fin 0,
       totalInterestRegular = Fin 0,
       totalInterestAggressive = Fin 0,
       aggressiveClosedMonth = totalMonths inp,
       regularClosedMonth = totalMonths inp,
       isAggressiveClosed = False,
       isRegularClosed = False,
       data = [] \<rparr>"

subsection \<open>The body of the loop\<close>

text \<open>\<open>Math.ceil(month / 12)\<close>.\<close>

definition yearOf :: "int \<Rightarrow> int" where
  "yearOf mth = \<lceil>real_of_int mth / 12\<rceil>"

text \<open>Step 1, the budget of the month.\<close>

definition currentMonthlyBudget :: "LoanInput \<Rightarrow> int \<Rightarrow> jsnum" where
  "currentMonthlyBudget inp mth =
     (if 1 < yearOf mth
      then jmul (baseEmi inp)
             (jpow (jadd (Fin 1) (jdiv (Fin (stepUpPercentage inp)) (Fin 100)))
                (yearOf mth - 1))
      else baseEmi inp)"

definition extraPaymentBudget :: "LoanInput \<Rightarrow> int \<Rightarrow> jsnum" where
  "extraPaymentBudget inp mth =
     (if 0 < extraEmiPerYear inp \<and> mth mod 12 = 0
      then jmul (baseEmi inp) (Fin (extraEmiPerYear inp))
      else Fin 0)"

definition totalBudgetThisMonth :: "LoanInput \<Rightarrow> int \<Rightarrow> jsnum" where
  "totalBudgetThisMonth inp mth =
     jadd (currentMonthlyBudget inp mth) (extraPaymentBudget inp mth)"

text \<open>Step 2 A, the loan of strategy A.\<close>

definition regularLoanPart :: "LoanInput \<Rightarrow> int \<Rightarrow> State \<Rightarrow> State" where
  "regularLoanPart inp mth st =
     (if \<not> isRegularClosed st then
        (let interest = jmul (balanceRegular st) (monthlyRate inp);
             principalComp = jsub (baseEmi inp) interest
         in if jlt (jsub (balanceRegular st) principalComp) (Fin 0)
            then st\<lparr> isRegularClosed := True,
                     regularClosedMonth := mth,
                     totalInterestRegular := jadd (totalInterestRegular st) interest,
                     balanceRegular := jsub (balanceRegular st) (balanceRegular st) \<rparr>
            else st\<lparr> totalInterestRegular := jadd (totalInterestRegular st) interest,
                     balanceRegular := jsub (balanceRegular st) principalComp \<rparr>)
      else st)"

text \<open>
  Step 2 B, the surplus of strategy A. It reads \<open>isRegularClosed\<close> after the loan part
  has run.
\<close>

definition surplusRegular :: "LoanInput \<Rightarrow> jsnum \<Rightarrow> State \<Rightarrow> jsnum" where
  "surplusRegular inp budget st =
     jsub budget (if isRegularClosed st then Fin 0 else baseEmi inp)"

definition regularSipPart :: "LoanInput \<Rightarrow> jsnum \<Rightarrow> State \<Rightarrow> State" where
  "regularSipPart inp surplus st =
     (if jgt surplus (Fin 0)
      then st\<lparr> sipValueRegular :=
                 jmul (jadd (sipValueRegular st) surplus) (jadd (Fin 1) (sipMonthlyRate inp)),
               totalInvestedRegular := jadd (totalInvestedRegular st) surplus \<rparr>
      else st\<lparr> sipValueRegular :=
                 jmul (sipValueRegular st) (jadd (Fin 1) (sipMonthlyRate inp)) \<rparr>)"

text \<open>
  Step 3, the loan of strategy B. The result is the new state and
  \<open>amountForSipAggressive\<close>.
\<close>

definition aggressiveLoanPart :: "LoanInput \<Rightarrow> int \<Rightarrow> jsnum \<Rightarrow> State \<Rightarrow> State \<times> jsnum" where
  "aggressiveLoanPart inp mth budget st =
     (if \<not> isAggressiveClosed st then
        (let amountForLoanAggressive = budget;
             interest = jmul (balanceAggressive st) (monthlyRate inp);
             principalComp = jsub amountForLoanAggressive interest
         in if jlt (jsub (balanceAggressive st) principalComp) (Fin 0)
            then
              (let actualNeeded = jadd (balanceAggressive st) interest
               in (st\<lparr> isAggressiveClosed := True,
                        aggressiveClosedMonth := mth,
                        totalInterestAggressive := jadd (totalInterestAggressive st) interest,
                        balanceAggressive :=
                          jsub (balanceAggressive st) (balanceAggressive st) \<rparr>,
                   jsub budget actualNeeded))
            else
              (st\<lparr> totalInterestAggressive := jadd (totalInterestAggressive st) interest,
                    balanceAggressive := jsub (balanceAggressive st) principalComp \<rparr>,
               Fin 0))
      else (st, budget))"

definition aggressiveSipPart :: "LoanInput \<Rightarrow> jsnum \<Rightarrow> State \<Rightarrow> State" where
  "aggressiveSipPart inp amountForSipAggressive st =
     (if jgt amountForSipAggressive (Fin 0)
      then st\<lparr> sipValueAggressive :=
                 jmul (jadd (sipValueAggressive st) amountForSipAggressive)
                   (jadd (Fin 1) (sipMonthlyRate inp)),
               totalInvestedAggressive :=
                 jadd (totalInvestedAggressive st) amountForSipAggressive \<rparr>
      else st\<lparr> sipValueAggressive :=
                 jmul (sipValueAggressive st) (jadd (Fin 1) (sipMonthlyRate inp)) \<rparr>)"

text \<open>\<open>data.push(...)\<close>.\<close>

definition pushSnapshot :: "int \<Rightarrow> State \<Rightarrow> State" where
  "pushSnapshot mth st =
     st\<lparr> data := data st @
       [\<lparr> md_month = mth,
          md_year = yearOf mth,
          md_loanBalanceRegular = jmax (Fin 0) (balanceRegular st),
          md_loanBalanceAggressive = jmax (Fin 0) (balanceAggressive st),
          md_sipValueRegular = sipValueRegular st,
          md_sipValueAggressive = sipValueAggressive st,
          md_cumulativeInterestRegular = totalInterestRegular st,
          md_cumulativeInterestAggressive = totalInterestAggressive st,
          md_totalInvestedRegular = totalInvestedRegular st,
          md_totalInvestedAggressive = totalInvestedAggressive st \<rparr>] \<rparr>"

text \<open>One iteration: both strategies receive the one \<open>totalBudgetThisMonth\<close>.\<close>

definition strategyA :: "LoanInput \<Rightarrow> int \<Rightarrow> jsnum \<Rightarrow> State \<Rightarrow> State" where
  "strategyA inp mth budget st =
     (let st1 = regularLoanPart inp mth st
      in regularSipPart inp (surplusRegular inp budget st1) st1)"

definition strategyB :: "LoanInput \<Rightarrow> int \<Rightarrow> jsnum \<Rightarrow> State \<Rightarrow> State" where
  "strategyB inp mth budget st =
     (case aggressiveLoanPart inp mth budget st of
        (st1, amountForSipAggressive) \<Rightarrow> aggressiveSipPart inp amountForSipAggressive st1)"

definition monthBody :: "LoanInput \<Rightarrow> int \<Rightarrow> State \<Rightarrow> State" where
  "monthBody inp mth st =
     pushSnapshot mth
       (strategyB inp mth (totalBudgetThisMonth inp mth)
          (strategyA inp mth (totalBudgetThisMonth inp mth) st))"

subsection \<open>The loop and the summary\<close>

text \<open>\<open>for (let month = 1; month <= totalMonths; month++)\<close>, entered with \<open>month\<close>.\<close>

function loop :: "LoanInput \<Rightarrow> int \<Rightarrow> State \<Rightarrow> State" where
  "loop inp mth st =
     (if mth \<le> totalMonths inp then loop inp (mth + 1) (monthBody inp mth st) else st)"
  by pat_completeness auto
termination
  by (relation "measure (\<lambda>(inp, mth, st). nat (totalMonths inp + 1 - mth))") auto

declare loop.simps [simp del]

definition finalState :: "LoanInput \<Rightarrow> State" where
  "finalState inp = loop inp 1 (initState inp)"


definition summarise :: "State \<Rightarrow> SimulationResult" where
  "summarise st =
     (let finalWealthRegular' = jsub (sipValueRegular st) (jmax (Fin 0) (balanceRegular st));
          finalWealthAggressive' =
            jsub (sipValueAggressive st) (jmax (Fin 0) (balanceAggressive st));
          netWealthDifference' = jabs (jsub finalWealthAggressive' finalWealthRegular');
          winningStrategy' =
            (if jgt finalWealthAggressive' finalWealthRegular' then Prepay else Invest)
      in \<lparr> monthlyData = data st,
           summary =
             \<lparr> regularTotalInterest = totalInterestRegular st,
               aggressiveTotalInterest = totalInterestAggressive st,
               regularTenureMonths = regularClosedMonth st,
               aggressiveTenureMonths = aggressiveClosedMonth st,
               interestSaved = jsub (totalInterestRegular st) (totalInterestAggressive st),
               finalWealthRegular = finalWealthRegular',
               finalWealthAggressive = finalWealthAggressive',
               totalAmountInvestedRegular = totalInvestedRegular st,
               totalAmountInvestedAggressive = totalInvestedAggressive st,
               winningStrategy = winningStrategy',
               netWealthDifference = netWealthDifference' \<rparr> \<rparr>)"

definition calculateScenario :: "LoanInput \<Rightarrow> SimulationResult" where
  "calculateScenario inp = summarise (finalState inp)"

text \<open>
  The operation as its callers see it. \<open>calculateScenario\<close> has no \<open>throw\<close> and no test
  of its argument, so the model has no branch that ends in an error.
\<close>

datatype error = InvalidInput

definition simulate :: "LoanInput \<Rightarrow> error + SimulationResult" where
  "simulate inp = Inr (calculateScenario inp)"

section \<open>Inputs and states used as examples\<close>

text \<open>
  A loan of 4095 at 1200 percent a year (a monthly rate of 1) over one year: the
  installment is 4096 and the balance after \<open>k\<close> months is \<open>4096 - 2 ^ k\<close>.
\<close>

definition exFlat :: LoanInput where
  "exFlat =
     \<lparr> principal = 4095, interestRate = 1200, tenureYears = 1, sipReturnRate = 1200,
       extraEmiPerYear = 0, stepUpPercentage = 0 \<rparr>"


text \<open>Two years, one extra installment a year, the capacity doubled in the second year.\<close>

definition exStepUp :: LoanInput where
  "exStepUp =
     \<lparr> principal = 16777215, interestRate = 1200, tenureYears = 2, sipReturnRate = 1200,
       extraEmiPerYear = 1, stepUpPercentage = 100 \<rparr>"


text \<open>The application's initial form with the loan amount cleared, which it sends as 0.\<close>

definition exNoPrincipal :: LoanInput where
  "exNoPrincipal =
     \<lparr> principal = 0, interestRate = 8.5, tenureYears = 20, sipReturnRate = 12,
       extraEmiPerYear = 1, stepUpPercentage = 5 \<rparr>"

text \<open>Loans at an interest rate of 0, the first one the example of the specification.\<close>

definition exZeroRate :: LoanInput where
  "exZeroRate =
     \<lparr> principal = 1200000, interestRate = 0, tenureYears = 10, sipReturnRate = 12,
       extraEmiPerYear = 0, stepUpPercentage = 0 \<rparr>"

definition exZeroRateStepUp :: LoanInput where
  "exZeroRateStepUp =
     \<lparr> principal = 5000000, interestRate = 0, tenureYears = 20, sipReturnRate = 12,
       extraEmiPerYear = 1, stepUpPercentage = 5 \<rparr>"

definition exZeroRatePrepay :: LoanInput where
  "exZeroRatePrepay =
     \<lparr> principal = 5000000, interestRate = 0, tenureYears = 5, sipReturnRate = 8,
       extraEmiPerYear = 2, stepUpPercentage = 10 \<rparr>"

definition exZeroRateYear :: LoanInput where
  "exZeroRateYear =
     \<lparr> principal = 1200000, interestRate = 0, tenureYears = 1, sipReturnRate = 12,
       extraEmiPerYear = 0, stepUpPercentage = 0 \<rparr>"

section \<open>Valid inputs and the closed forms of the amortisation\<close>

text \<open>The constraints of the data model on an input.\<close>

definition validInput :: "LoanInput \<Rightarrow> bool" where
  "validInput inp =
     (0 < principal inp \<and> 0 \<le> interestRate inp \<and> 1 \<le> tenureYears inp
      \<and> 0 \<le> sipReturnRate inp \<and> 0 \<le> extraEmiPerYear inp \<and> 0 \<le> stepUpPercentage inp)"

text \<open>
  The values, as reals, that the constants of \<open>calculateScenario\<close> have for a valid input
  with a positive interest rate: the monthly rate \<open>r\<close>, the growth \<open>(1 + r) ^ n\<close> over the
  tenure, the installment, the balance of strategy A after \<open>k\<close> months and the budget of a
  month.
\<close>

definition rateR :: "LoanInput \<Rightarrow> real" where
  "rateR inp = interestRate inp / 12 / 100"

definition growthR :: "LoanInput \<Rightarrow> real" where
  "growthR inp = (1 + rateR inp) ^ nat (totalMonths inp)"

definition emiR :: "LoanInput \<Rightarrow> real" where
  "emiR inp = principal inp * rateR inp * growthR inp / (growthR inp - 1)"

definition balanceR :: "LoanInput \<Rightarrow> nat \<Rightarrow> real" where
  "balanceR inp k = principal inp * (growthR inp - (1 + rateR inp) ^ k) / (growthR inp - 1)"

definition budgetR :: "LoanInput \<Rightarrow> int \<Rightarrow> real" where
  "budgetR inp mth =
     emiR inp * (1 + stepUpPercentage inp / 100) ^ nat (yearOf mth - 1)
     + (if 0 < extraEmiPerYear inp \<and> mth mod 12 = 0 then emiR inp * extraEmiPerYear inp else 0)"

section \<open>Properties of the snapshots\<close>

text \<open>A sequence of numbers in which no element is followed by a greater one.\<close>

fun nonIncreasing :: "jsnum list \<Rightarrow> bool" where
  "nonIncreasing (x # y # zs) = (jle y x \<and> nonIncreasing (y # zs))"
| "nonIncreasing _ = True"

text \<open>A number that is neither \<open>NaN\<close> nor an infinity; a snapshot and a state of such numbers.\<close>

fun isFin :: "jsnum \<Rightarrow> bool" where
  "isFin (Fin a) = True"
| "isFin _ = False"

definition finiteSnapshot :: "MonthlyData \<Rightarrow> bool" where
  "finiteSnapshot d =
     (isFin (md_loanBalanceRegular d) \<and> isFin (md_loanBalanceAggressive d)
      \<and> isFin (md_sipValueRegular d) \<and> isFin (md_sipValueAggressive d)
      \<and> isFin (md_cumulativeInterestRegular d) \<and> isFin (md_cumulativeInterestAggressive d)
      \<and> isFin (md_totalInvestedRegular d) \<and> isFin (md_totalInvestedAggressive d))"

definition finiteState :: "State \<Rightarrow> bool" where
  "finiteState st =
     (isFin (balanceRegular st) \<and> isFin (balanceAggressive st)
      \<and> isFin (sipValueRegular st) \<and> isFin (sipValueAggressive st)
      \<and> isFin (totalInvestedRegular st) \<and> isFin (totalInvestedAggressive st)
      \<and> isFin (totalInterestRegular st) \<and> isFin (totalInterestAggressive st)
      \<and> list_all finiteSnapshot (data st))"

definition finiteSummary :: "Summary \<Rightarrow> bool" where
  "finiteSummary sm =
     (isFin (regularTotalInterest sm) \<and> isFin (aggressiveTotalInterest sm)
      \<and> isFin (interestSaved sm)
      \<and> isFin (finalWealthRegular sm) \<and> isFin (finalWealthAggressive sm)
      \<and> isFin (totalAmountInvestedRegular sm) \<and> isFin (totalAmountInvestedAggressive sm)
      \<and> isFin (netWealthDifference sm))"

section \<open>Invariants of the loop\<close>

text \<open>
  What holds on entry to month \<open>mth\<close> when the interest rate is 0: after the first
  month both balances are \<open>NaN\<close>, no loan is closed and nothing is invested; after the
  second the interest totals are \<open>NaN\<close> as well.
\<close>

definition zeroRateInv :: "LoanInput \<Rightarrow> int \<Rightarrow> State \<Rightarrow> bool" where
  "zeroRateInv inp mth st =
     (if mth \<le> 1 then st = initState inp
      else balanceRegular st = NaN \<and> balanceAggressive st = NaN
        \<and> \<not> isRegularClosed st \<and> \<not> isAggressiveClosed st
        \<and> sipValueRegular st = Fin 0 \<and> sipValueAggressive st = Fin 0
        \<and> totalInvestedRegular st = Fin 0 \<and> totalInvestedAggressive st = Fin 0
        \<and> totalInterestRegular st = (if mth = 2 then Fin 0 else NaN)
        \<and> totalInterestAggressive st = (if mth = 2 then Fin 0 else NaN)
        \<and> list_all (\<lambda>d. md_loanBalanceRegular d = NaN \<and> md_loanBalanceAggressive d = NaN)
              (data st)
        \<and> data st \<noteq> [])"

text \<open>
  What holds on entry to month \<open>mth\<close> for a valid input with a positive interest rate:
  the balance of strategy A follows the closed form and its loan has not been closed by the
  clamp; the balance of strategy B lies between 0 and that of strategy A and is 0 once its
  loan is closed; the interest paid by strategy B is at most that paid by strategy A.
\<close>

definition posRateInv :: "LoanInput \<Rightarrow> int \<Rightarrow> State \<Rightarrow> bool" where
  "posRateInv inp mth st =
     (balanceRegular st = Fin (balanceR inp (nat (mth - 1)))
      \<and> \<not> isRegularClosed st
      \<and> (\<exists>a iR iA.
            balanceAggressive st = Fin a \<and> 0 \<le> a \<and> a \<le> balanceR inp (nat (mth - 1))
          \<and> (isAggressiveClosed st \<longrightarrow> a = 0)
          \<and> totalInterestRegular st = Fin iR \<and> totalInterestAggressive st = Fin iA
          \<and> 0 \<le> iA \<and> iA \<le> iR))"

text \<open>
  What the snapshots recorded before month \<open>mth\<close> satisfy: the balances never increase and
  none is below the current one; the snapshot of the month before holds the current
  balances; and the balance of strategy B is 0 in every snapshot from its closing month on.
\<close>

definition snapshotInv :: "int \<Rightarrow> State \<Rightarrow> bool" where
  "snapshotInv mth st =
     (nonIncreasing (map md_loanBalanceRegular (data st))
      \<and> nonIncreasing (map md_loanBalanceAggressive (data st))
      \<and> list_all
           (\<lambda>d. jle (balanceRegular st) (md_loanBalanceRegular d)
              \<and> jle (balanceAggressive st) (md_loanBalanceAggressive d)
              \<and> md_month d < mth
              \<and> (md_month d = mth - 1 \<longrightarrow>
                    md_loanBalanceRegular d = balanceRegular st
                  \<and> md_loanBalanceAggressive d = balanceAggressive st)
              \<and> (isAggressiveClosed st \<and> aggressiveClosedMonth st \<le> md_month d \<longrightarrow>
                    md_loanBalanceAggressive d = Fin 0))
           (data st))"

text \<open>
  What holds on entry to month \<open>mth\<close> when, in addition, there is neither an extra
  installment nor a step-up: the two strategies are in the same position, with both loans
  open and nothing invested.
\<close>

definition flatInv :: "LoanInput \<Rightarrow> int \<Rightarrow> State \<Rightarrow> bool" where
  "flatInv inp mth st =
     (balanceRegular st = Fin (balanceR inp (nat (mth - 1)))
      \<and> balanceAggressive st = Fin (balanceR inp (nat (mth - 1)))
      \<and> \<not> isRegularClosed st \<and> \<not> isAggressiveClosed st
      \<and> sipValueRegular st = Fin 0 \<and> sipValueAggressive st = Fin 0)"

section \<open>Arithmetic of the numbers\<close>

lemma jadd_zero_right [simp]: "jadd a (Fin 0) = a"
  by (cases a) simp_all

lemma jadd_NaN_right [simp]: "jadd a NaN = NaN"
  by (cases a) simp_all

lemma jsub_Fin [simp]: "jsub (Fin a) (Fin b) = Fin (a - b)"
  by (simp add: jsub_def)

lemma jsub_zero_right [simp]: "jsub a (Fin 0) = a"
  by (cases a) (simp_all add: jsub_def)

lemma jsub_NaN [simp]: "jsub a NaN = NaN" "jsub NaN a = NaN"
  by (simp_all add: jsub_def)

lemma jmul_one_right [simp]: "jmul a (Fin 1) = a"
  by (cases a) simp_all

lemma jmul_NaN_right [simp]: "jmul a NaN = NaN"
  by (cases a) simp_all

lemma jlt_irrefl [simp]: "\<not> jlt a a"
  by (cases a) simp_all

lemma monthlyRate_Fin: "monthlyRate inp = Fin (interestRate inp / 12 / 100)"
  by (simp add: monthlyRate_def)

lemma sipMonthlyRate_Fin: "sipMonthlyRate inp = Fin (sipReturnRate inp / 12 / 100)"
  by (simp add: sipMonthlyRate_def)

lemma yearOf_div: "yearOf mth = (mth + 11) div 12"
  unfolding yearOf_def by linarith

section \<open>The loop\<close>

text \<open>
  The rule for an invariant of the loop: entered with \<open>mth\<close>, the loop ends with its
  counter at \<open>totalMonths + 1\<close>, or at \<open>mth\<close> when it does not run at all.
\<close>

lemma loop_invariant:
  assumes "P mth st"
    and "\<And>m s. P m s \<Longrightarrow> m \<le> totalMonths inp \<Longrightarrow> P (m + 1) (monthBody inp m s)"
  shows "P (max mth (totalMonths inp + 1)) (loop inp mth st)"
  using assms
proof (induction inp mth st rule: loop.induct)
  case (1 inp mth st)
  show ?case
  proof (cases "mth \<le> totalMonths inp")
    case True
    have "P (mth + 1) (monthBody inp mth st)"
      using "1.prems" True by blast
    then have "P (max (mth + 1) (totalMonths inp + 1))
        (loop inp (mth + 1) (monthBody inp mth st))"
      using "1.IH" [OF True] "1.prems"(2) by blast
    moreover have "max (mth + 1) (totalMonths inp + 1) = max mth (totalMonths inp + 1)"
      using True by simp
    ultimately show ?thesis
      using True by (simp add: loop.simps [of inp mth st])
  next
    case False
    then have "max mth (totalMonths inp + 1) = mth"
      by simp
    then show ?thesis
      using "1.prems"(1) False by (simp add: loop.simps [of inp mth st])
  qed
qed

lemmas body_defs =
  monthBody_def pushSnapshot_def strategyA_def strategyB_def regularLoanPart_def
  surplusRegular_def regularSipPart_def aggressiveLoanPart_def aggressiveSipPart_def

text \<open>Every iteration appends one snapshot, numbered with the month.\<close>

lemma months_monthBody:
  "map md_month (data (monthBody inp m s)) = map md_month (data s) @ [m]"
  by (simp add: body_defs Let_def)

lemma months_finalState: "map md_month (data (finalState inp)) = [1..totalMonths inp]"
proof -
  let ?P = "\<lambda>m (s::State). 1 \<le> m \<and> map md_month (data s) = [1..m - 1]"
  have "?P (max 1 (totalMonths inp + 1)) (loop inp 1 (initState inp))"
  proof (rule loop_invariant)
    show "?P 1 (initState inp)"
      by (simp add: initState_def)
  next
    fix m s
    assume "?P m s"
    then show "?P (m + 1) (monthBody inp m s)"
      by (simp add: months_monthBody upto_rec2 [of 1 m])
  qed
  then have "map md_month (data (finalState inp)) = [1..max 1 (totalMonths inp + 1) - 1]"
    by (simp add: finalState_def)
  also have "\<dots> = [1..totalMonths inp]"
    by (cases "0 \<le> totalMonths inp") (simp_all add: max_def)
  finally show ?thesis .
qed

lemma length_finalState: "length (data (finalState inp)) = nat (totalMonths inp)"
proof -
  have "length (data (finalState inp)) = length (map md_month (data (finalState inp)))"
    by simp
  also have "\<dots> = nat (totalMonths inp)"
    unfolding months_finalState by simp
  finally show ?thesis .
qed

section \<open>An interest rate of 0\<close>

lemma baseEmi_zero_rate: "interestRate inp = 0 \<Longrightarrow> baseEmi inp = NaN"
  by (simp add: baseEmi_def monthlyRate_Fin)

lemma totalBudget_zero_rate: "interestRate inp = 0 \<Longrightarrow> totalBudgetThisMonth inp mth = NaN"
  by (simp add: totalBudgetThisMonth_def currentMonthlyBudget_def baseEmi_zero_rate)

lemma zeroRateInv_step:
  assumes "interestRate inp = 0" and "zeroRateInv inp m s" and "1 \<le> m"
  shows "zeroRateInv inp (m + 1) (monthBody inp m s)"
proof (cases "m = 1")
  case True
  with assms(2) have "s = initState inp"
    by (simp add: zeroRateInv_def)
  then show ?thesis
    using True assms(1)
    by (simp add: zeroRateInv_def body_defs totalBudget_zero_rate baseEmi_zero_rate
        initState_def Let_def jgt_def monthlyRate_Fin sipMonthlyRate_Fin)
next
  case False
  with assms(3) have "\<not> m \<le> 1"
    by simp
  then show ?thesis
    using assms(1,2)
    by (simp add: zeroRateInv_def body_defs totalBudget_zero_rate baseEmi_zero_rate
        Let_def jgt_def monthlyRate_Fin sipMonthlyRate_Fin)
qed

lemma zeroRate_final:
  assumes "interestRate inp = 0" and "1 \<le> tenureYears inp"
  shows "zeroRateInv inp (totalMonths inp + 1) (finalState inp)"
proof -
  let ?P = "\<lambda>m (s::State). 1 \<le> m \<and> zeroRateInv inp m s"
  have "?P (max 1 (totalMonths inp + 1)) (loop inp 1 (initState inp))"
  proof (rule loop_invariant)
    show "?P 1 (initState inp)"
      by (simp add: zeroRateInv_def)
  next
    fix m s
    assume "?P m s"
    then show "?P (m + 1) (monthBody inp m s)"
      by (simp add: zeroRateInv_step [OF assms(1)])
  qed
  moreover have "max 1 (totalMonths inp + 1) = totalMonths inp + 1"
    using assms(2) by (simp add: totalMonths_def)
  ultimately show ?thesis
    by (simp add: finalState_def)
qed

text \<open>The summary and the snapshots of a loan of at least one year at the rate 0.\<close>

lemma zeroRate_result:
  assumes "interestRate inp = 0" and "1 \<le> tenureYears inp"
  shows "regularTotalInterest (summary (calculateScenario inp)) = NaN"
    and "aggressiveTotalInterest (summary (calculateScenario inp)) = NaN"
    and "finalWealthRegular (summary (calculateScenario inp)) = NaN"
    and "finalWealthAggressive (summary (calculateScenario inp)) = NaN"
    and "list_all (\<lambda>d. md_loanBalanceRegular d = NaN \<and> md_loanBalanceAggressive d = NaN)
           (monthlyData (calculateScenario inp))"
proof -
  have "\<not> totalMonths inp + 1 \<le> 1" "totalMonths inp + 1 \<noteq> 2"
    using assms(2) by (simp_all add: totalMonths_def)
  with zeroRate_final [OF assms] have inv:
    "balanceRegular (finalState inp) = NaN" "balanceAggressive (finalState inp) = NaN"
    "totalInterestRegular (finalState inp) = NaN" "totalInterestAggressive (finalState inp) = NaN"
    "list_all (\<lambda>d. md_loanBalanceRegular d = NaN \<and> md_loanBalanceAggressive d = NaN)
       (data (finalState inp))"
    by (simp_all add: zeroRateInv_def)
  show "regularTotalInterest (summary (calculateScenario inp)) = NaN"
    and "aggressiveTotalInterest (summary (calculateScenario inp)) = NaN"
    and "finalWealthRegular (summary (calculateScenario inp)) = NaN"
    and "finalWealthAggressive (summary (calculateScenario inp)) = NaN"
    and "list_all (\<lambda>d. md_loanBalanceRegular d = NaN \<and> md_loanBalanceAggressive d = NaN)
           (monthlyData (calculateScenario inp))"
    using inv by (simp_all add: calculateScenario_def summarise_def Let_def)
qed

text \<open>
  C1. At an interest rate of 0 the installment should be \<open>principal / (tenureYears * 12)\<close>
  and the result free of \<open>NaN\<close>. For the loan of 1,200,000 over 10 years at the rate 0,
  a valid input, that quotient is 10,000, but \<open>baseEmi\<close> is \<open>0 / 0 = NaN\<close>, and so are the final wealth of
  both strategies, both interest totals and the balances of the first snapshot.
\<close>

theorem C1_zero_rate_installment_is_NaN:
  "validInput exZeroRate
   \<and> baseEmi exZeroRate = NaN
   \<and> jdiv (Fin (principal exZeroRate)) (Fin (real_of_int (tenureYears exZeroRate * 12))) = Fin 10000
   \<and> finalWealthRegular (summary (calculateScenario exZeroRate)) = NaN
   \<and> finalWealthAggressive (summary (calculateScenario exZeroRate)) = NaN
   \<and> regularTotalInterest (summary (calculateScenario exZeroRate)) = NaN
   \<and> aggressiveTotalInterest (summary (calculateScenario exZeroRate)) = NaN
   \<and> md_loanBalanceRegular (hd (monthlyData (calculateScenario exZeroRate))) = NaN"
proof -
  have z: "interestRate exZeroRate = 0" "1 \<le> tenureYears exZeroRate"
    by (simp_all add: exZeroRate_def)
  have "length (monthlyData (calculateScenario exZeroRate)) = 120"
    by (simp add: calculateScenario_def summarise_def Let_def length_finalState totalMonths_def
        exZeroRate_def)
  then have "monthlyData (calculateScenario exZeroRate) \<noteq> []"
    by auto
  with zeroRate_result(5) [OF z]
  have "md_loanBalanceRegular (hd (monthlyData (calculateScenario exZeroRate))) = NaN"
    by (cases "monthlyData (calculateScenario exZeroRate)") simp_all
  moreover have "jdiv (Fin (principal exZeroRate))
      (Fin (real_of_int (tenureYears exZeroRate * 12))) = Fin 10000"
    by (simp add: exZeroRate_def)
  moreover have "validInput exZeroRate"
    by (simp add: validInput_def exZeroRate_def)
  ultimately show ?thesis
    using baseEmi_zero_rate [OF z(1)] zeroRate_result(1-4) [OF z] by simp
qed

section \<open>The examples evaluated\<close>

lemma exFlat_fields:
  "principal exFlat = 4095" "interestRate exFlat = 1200" "tenureYears exFlat = 1"
  "sipReturnRate exFlat = 1200" "extraEmiPerYear exFlat = 0" "stepUpPercentage exFlat = 0"
  by (simp_all add: exFlat_def)


lemma exStepUp_fields:
  "principal exStepUp = 16777215" "interestRate exStepUp = 1200" "tenureYears exStepUp = 2"
  "sipReturnRate exStepUp = 1200" "extraEmiPerYear exStepUp = 1" "stepUpPercentage exStepUp = 100"
  by (simp_all add: exStepUp_def)

lemma baseEmi_exFlat: "baseEmi exFlat = Fin 4096"
  by (simp add: baseEmi_def exFlat_fields monthlyRate_Fin totalMonths_def)


lemma baseEmi_exStepUp: "baseEmi exStepUp = Fin 16777216"
  by (simp add: baseEmi_def exStepUp_fields monthlyRate_Fin totalMonths_def)


text \<open>
  The run of \<open>exFlat\<close>: the budget is the installment in every month, no loan is closed by
  the clamp, nothing is invested and both balances end at 0.
\<close>

lemma finalState_exFlat:
  "(finalState exFlat)\<lparr> data := [] \<rparr> =
     \<lparr> balanceRegular = Fin 0,
       balanceAggressive = Fin 0,
       sipValueRegular = Fin 0,
       sipValueAggressive = Fin 0,
       totalInvestedRegular = Fin 0,
       totalInvestedAggressive = Fin 0,
       totalInterestRegular = Fin 45057,
       totalInterestAggressive = Fin 45057,
       aggressiveClosedMonth = 12,
       regularClosedMonth = 12,
       isAggressiveClosed = False,
       isRegularClosed = False,
       data = [] \<rparr>"
  by (simp add: finalState_def loop.simps body_defs totalBudgetThisMonth_def
     currentMonthlyBudget_def extraPaymentBudget_def yearOf_div baseEmi_exFlat initState_def
     Let_def jgt_def monthlyRate_Fin sipMonthlyRate_Fin totalMonths_def exFlat_fields)

lemma exFlat_never_closed:
  "\<not> isRegularClosed (finalState exFlat)" "\<not> isAggressiveClosed (finalState exFlat)"
  using arg_cong [OF finalState_exFlat, of isRegularClosed]
    arg_cong [OF finalState_exFlat, of isAggressiveClosed]
  by simp_all

lemma exFlat_final_wealth:
  "finalWealthRegular (summary (calculateScenario exFlat)) = Fin 0"
  "finalWealthAggressive (summary (calculateScenario exFlat)) = Fin 0"
  using arg_cong [OF finalState_exFlat, of balanceRegular]
    arg_cong [OF finalState_exFlat, of balanceAggressive]
    arg_cong [OF finalState_exFlat, of sipValueRegular]
    arg_cong [OF finalState_exFlat, of sipValueAggressive]
  by (simp_all add: calculateScenario_def summarise_def Let_def)







section \<open>The closing months\<close>

text \<open>A closing month differs from its initial value only once the flag is set.\<close>

lemma closedMonth_step:
  assumes "(\<not> isRegularClosed s \<longrightarrow> regularClosedMonth s = totalMonths inp)
      \<and> (\<not> isAggressiveClosed s \<longrightarrow> aggressiveClosedMonth s = totalMonths inp)"
  shows "(\<not> isRegularClosed (monthBody inp m s) \<longrightarrow>
            regularClosedMonth (monthBody inp m s) = totalMonths inp)
      \<and> (\<not> isAggressiveClosed (monthBody inp m s) \<longrightarrow>
            aggressiveClosedMonth (monthBody inp m s) = totalMonths inp)"
  using assms by (simp add: body_defs Let_def)

lemma closedMonth_final:
  "(\<not> isRegularClosed (finalState inp) \<longrightarrow>
      regularClosedMonth (finalState inp) = totalMonths inp)
   \<and> (\<not> isAggressiveClosed (finalState inp) \<longrightarrow>
      aggressiveClosedMonth (finalState inp) = totalMonths inp)"
  unfolding finalState_def
  by (rule loop_invariant [where P = "\<lambda>m s.
        (\<not> isRegularClosed s \<longrightarrow> regularClosedMonth s = totalMonths inp)
      \<and> (\<not> isAggressiveClosed s \<longrightarrow> aggressiveClosedMonth s = totalMonths inp)"])
    (simp add: initState_def, rule closedMonth_step)

text \<open>The flags are set in the clamping branches only, and stay set.\<close>

lemma closed_flags_monthBody:
  "isRegularClosed (monthBody inp m s) =
     (isRegularClosed s \<or>
      jlt (jsub (balanceRegular s)
             (jsub (baseEmi inp) (jmul (balanceRegular s) (monthlyRate inp)))) (Fin 0))"
  "isAggressiveClosed (monthBody inp m s) =
     (isAggressiveClosed s \<or>
      jlt (jsub (balanceAggressive s)
             (jsub (totalBudgetThisMonth inp m) (jmul (balanceAggressive s) (monthlyRate inp))))
        (Fin 0))"
  by (auto simp add: body_defs Let_def)

section \<open>The states of a run\<close>










section \<open>The claims\<close>

text \<open>
  C2 (as stated). The operation is claimed to reject an input whose principal is at most 0.
  For the application's initial form with the loan amount cleared (principal 0) it returns
  a result, with all 240 snapshots.
\<close>

theorem C2_no_rejection_counterexample:
  "principal exNoPrincipal \<le> 0
   \<and> \<not> isl (simulate exNoPrincipal)
   \<and> simulate exNoPrincipal \<noteq> Inl InvalidInput
   \<and> length (monthlyData (projr (simulate exNoPrincipal))) = 240"
  by (simp add: simulate_def calculateScenario_def summarise_def Let_def length_finalState
      totalMonths_def exNoPrincipal_def)

text \<open>
  C2 (amended). \<open>calculateScenario\<close> checks nothing and never rejects: for every input, also
  one with a principal or a tenure of at most 0 or a negative rate, it returns a result that
  holds the summary and one snapshot for each month \<open>1, 2, \<dots>, tenureYears * 12\<close> in this
  order (none when \<open>tenureYears \<le> 0\<close>).
\<close>

theorem C2_simulate_always_returns:
  "\<exists>res. simulate inp = Inr res
     \<and> map md_month (monthlyData res) = [1..tenureYears inp * 12]
     \<and> length (monthlyData res) = nat (tenureYears inp * 12)"
  by (simp add: simulate_def calculateScenario_def summarise_def Let_def months_finalState
      length_finalState totalMonths_def)




text \<open>
  C4. The winner is \<open>Prepay\<close> exactly when the final wealth of the aggressive strategy is
  greater than that of the regular one; when the two are equal the winner is \<open>Invest\<close>; and
  \<open>netWealthDifference\<close> is the absolute value of their difference. This holds for every
  input, valid or not.
\<close>

theorem C4_winning_strategy:
  "(winningStrategy (summary (calculateScenario inp)) = Prepay) =
      jgt (finalWealthAggressive (summary (calculateScenario inp)))
          (finalWealthRegular (summary (calculateScenario inp)))
   \<and> (finalWealthAggressive (summary (calculateScenario inp)) =
        finalWealthRegular (summary (calculateScenario inp)) \<longrightarrow>
        winningStrategy (summary (calculateScenario inp)) = Invest)
   \<and> netWealthDifference (summary (calculateScenario inp)) =
        jabs (jsub (finalWealthAggressive (summary (calculateScenario inp)))
                   (finalWealthRegular (summary (calculateScenario inp))))"
  by (simp add: calculateScenario_def summarise_def Let_def jgt_def)

theorem C4_winning_strategy_witness:
  "finalWealthAggressive (summary (calculateScenario exFlat)) =
     finalWealthRegular (summary (calculateScenario exFlat))
   \<and> winningStrategy (summary (calculateScenario exFlat)) = Invest
   \<and> netWealthDifference (summary (calculateScenario exFlat)) = Fin 0"
  using C4_winning_strategy [of exFlat] exFlat_final_wealth
  by simp

text \<open>
  C5. In month \<open>m \<ge> 1\<close>, with \<open>y = ceil (m / 12)\<close>, the budget is
  \<open>E * (1 + stepUpPercentage / 100) ^ (y - 1)\<close>, plus \<open>E * extraEmiPerYear\<close> exactly when
  \<open>extraEmiPerYear > 0\<close> and \<open>m mod 12 = 0\<close>; in the first year the capacity is \<open>E\<close> itself;
  and both strategies of the month are run with this one value.
\<close>

theorem C5_total_budget:
  assumes "1 \<le> mth"
  shows "totalBudgetThisMonth inp mth =
           jadd (jmul (baseEmi inp)
                   (Fin ((1 + stepUpPercentage inp / 100) ^ nat (\<lceil>real_of_int mth / 12\<rceil> - 1))))
                (if 0 < extraEmiPerYear inp \<and> mth mod 12 = 0
                 then jmul (baseEmi inp) (Fin (extraEmiPerYear inp)) else Fin 0)
       \<and> (mth \<le> 12 \<longrightarrow> currentMonthlyBudget inp mth = baseEmi inp)
       \<and> monthBody inp mth st =
           pushSnapshot mth
             (strategyB inp mth (totalBudgetThisMonth inp mth)
                (strategyA inp mth (totalBudgetThisMonth inp mth) st))"
proof -
  have y: "1 \<le> yearOf mth"
    using assms by (simp add: yearOf_div)
  have "totalBudgetThisMonth inp mth =
           jadd (jmul (baseEmi inp)
                   (Fin ((1 + stepUpPercentage inp / 100) ^ nat (\<lceil>real_of_int mth / 12\<rceil> - 1))))
                (if 0 < extraEmiPerYear inp \<and> mth mod 12 = 0
                 then jmul (baseEmi inp) (Fin (extraEmiPerYear inp)) else Fin 0)"
    using y
    by (cases "yearOf mth = 1")
       (simp_all add: totalBudgetThisMonth_def currentMonthlyBudget_def extraPaymentBudget_def
          yearOf_def [symmetric])
  moreover have "currentMonthlyBudget inp mth = baseEmi inp" if "mth \<le> 12"
  proof -
    have "yearOf mth \<le> 1"
      using that unfolding yearOf_div by linarith
    then show ?thesis
      by (simp add: currentMonthlyBudget_def)
  qed
  moreover have "monthBody inp mth st =
           pushSnapshot mth
             (strategyB inp mth (totalBudgetThisMonth inp mth)
                (strategyA inp mth (totalBudgetThisMonth inp mth) st))"
    by (simp add: monthBody_def)
  ultimately show ?thesis
    by blast
qed

theorem C5_total_budget_witness:
  "(1::int) \<le> 24 \<and> totalBudgetThisMonth exStepUp 24 = Fin 50331648
   \<and> (1::int) \<le> 7 \<and> (7::int) \<le> 12 \<and> totalBudgetThisMonth exStepUp 7 = Fin 16777216
   \<and> currentMonthlyBudget exStepUp 7 = Fin 16777216"
  using C5_total_budget [of 24 exStepUp] C5_total_budget [of 7 exStepUp]
  by (simp add: baseEmi_exStepUp exStepUp_fields)

text \<open>
  C6. One step of either accumulation track with a contribution \<open>c \<ge> 0\<close> and the monthly
  rate \<open>s = sipReturnRate / 12 / 100\<close> turns the value into \<open>(value + c) * (1 + s)\<close> and adds
  \<open>c\<close> to the total invested; with \<open>c = 0\<close> the value becomes \<open>value * (1 + s)\<close> and the total
  stays as it is.
\<close>

theorem C6_accumulation_step:
  assumes "0 \<le> c"
  shows "sipValueRegular (regularSipPart inp (Fin c) st) =
           jmul (jadd (sipValueRegular st) (Fin c))
             (jadd (Fin 1) (Fin (sipReturnRate inp / 12 / 100)))
       \<and> totalInvestedRegular (regularSipPart inp (Fin c) st) =
           jadd (totalInvestedRegular st) (Fin c)
       \<and> sipValueAggressive (aggressiveSipPart inp (Fin c) st) =
           jmul (jadd (sipValueAggressive st) (Fin c))
             (jadd (Fin 1) (Fin (sipReturnRate inp / 12 / 100)))
       \<and> totalInvestedAggressive (aggressiveSipPart inp (Fin c) st) =
           jadd (totalInvestedAggressive st) (Fin c)
       \<and> (c = 0 \<longrightarrow>
            sipValueRegular (regularSipPart inp (Fin c) st) =
              jmul (sipValueRegular st) (jadd (Fin 1) (Fin (sipReturnRate inp / 12 / 100)))
          \<and> totalInvestedRegular (regularSipPart inp (Fin c) st) = totalInvestedRegular st
          \<and> sipValueAggressive (aggressiveSipPart inp (Fin c) st) =
              jmul (sipValueAggressive st) (jadd (Fin 1) (Fin (sipReturnRate inp / 12 / 100)))
          \<and> totalInvestedAggressive (aggressiveSipPart inp (Fin c) st) =
              totalInvestedAggressive st)"
proof (cases "c = 0")
  case True
  then show ?thesis
    by (simp add: regularSipPart_def aggressiveSipPart_def jgt_def sipMonthlyRate_Fin)
next
  case False
  with assms have "0 < c"
    by simp
  then show ?thesis
    by (simp add: regularSipPart_def aggressiveSipPart_def jgt_def sipMonthlyRate_Fin)
qed

theorem C6_accumulation_step_witness:
  "(0::real) \<le> 100
   \<and> sipValueRegular (regularSipPart exFlat (Fin 100) (initState exFlat)) = Fin 200
   \<and> totalInvestedRegular (regularSipPart exFlat (Fin 100) (initState exFlat)) = Fin 100
   \<and> sipValueAggressive (aggressiveSipPart exFlat (Fin 100) (initState exFlat)) = Fin 200
   \<and> totalInvestedAggressive (aggressiveSipPart exFlat (Fin 100) (initState exFlat)) = Fin 100
   \<and> sipValueRegular
        (regularSipPart exFlat (Fin 0) (regularSipPart exFlat (Fin 100) (initState exFlat)))
        = Fin 400
   \<and> totalInvestedRegular
        (regularSipPart exFlat (Fin 0) (regularSipPart exFlat (Fin 100) (initState exFlat)))
        = Fin 100"
proof -
  have st: "sipValueRegular (initState exFlat) = Fin 0"
    "totalInvestedRegular (initState exFlat) = Fin 0"
    "sipValueAggressive (initState exFlat) = Fin 0"
    "totalInvestedAggressive (initState exFlat) = Fin 0"
    by (simp_all add: initState_def)
  show ?thesis
    using C6_accumulation_step [of 100 exFlat "initState exFlat"]
      C6_accumulation_step [of 0 exFlat "regularSipPart exFlat (Fin 100) (initState exFlat)"]
    by (simp add: st exFlat_fields)
qed

text \<open>
  C10. The flag \<open>isRegularClosed\<close> (\<open>isAggressiveClosed\<close>) is set only in the branch that
  clamps an overpayment and is never reset, so it is false at the end exactly when that
  branch never ran. In that case the summary reports \<open>tenureYears * 12\<close>, the value the
  closing month was initialised with, as the tenure of the strategy.
\<close>

theorem C10_default_tenure_months:
  "(\<not> isRegularClosed (finalState inp) \<longrightarrow>
      regularTenureMonths (summary (calculateScenario inp)) = tenureYears inp * 12)
   \<and> (\<not> isAggressiveClosed (finalState inp) \<longrightarrow>
      aggressiveTenureMonths (summary (calculateScenario inp)) = tenureYears inp * 12)"
  using closedMonth_final [of inp]
  by (simp add: calculateScenario_def summarise_def Let_def totalMonths_def)

theorem C10_default_tenure_months_witness:
  "\<not> isRegularClosed (finalState exFlat) \<and> \<not> isAggressiveClosed (finalState exFlat)
   \<and> regularTenureMonths (summary (calculateScenario exFlat)) = 12
   \<and> aggressiveTenureMonths (summary (calculateScenario exFlat)) = 12"
  using C10_default_tenure_months [of exFlat] exFlat_never_closed
  by (simp add: exFlat_fields)

section \<open>A positive interest rate\<close>

lemma rateR_pos: "0 < interestRate inp \<Longrightarrow> 0 < rateR inp"
  by (simp add: rateR_def)

lemma growthR_gt_one:
  assumes "0 < interestRate inp" and "1 \<le> tenureYears inp"
  shows "1 < growthR inp"
proof -
  have "0 < nat (totalMonths inp)"
    using assms(2) by (simp add: totalMonths_def)
  moreover have "1 < 1 + rateR inp"
    using rateR_pos [OF assms(1)] by simp
  ultimately show ?thesis
    unfolding growthR_def by (simp add: one_less_power)
qed

lemma baseEmi_pos_rate:
  assumes "0 < interestRate inp" and "1 \<le> tenureYears inp"
  shows "baseEmi inp = Fin (emiR inp)"
proof -
  have n: "0 < totalMonths inp"
    using assms(2) by (simp add: totalMonths_def)
  have "growthR inp - 1 \<noteq> 0"
    using growthR_gt_one [OF assms] by simp
  then show ?thesis
    using n by (simp add: baseEmi_def monthlyRate_Fin emiR_def growthR_def rateR_def)
qed

lemma emiR_gt_interest:
  assumes "0 < principal inp" and "0 < interestRate inp" and "1 \<le> tenureYears inp"
  shows "principal inp * rateR inp < emiR inp"
proof -
  have g: "1 < growthR inp"
    by (rule growthR_gt_one [OF assms(2,3)])
  have pr: "0 < principal inp * rateR inp"
    using assms(1) rateR_pos [OF assms(2)] by simp
  have "1 < growthR inp / (growthR inp - 1)"
    using g by (simp add: field_simps)
  then have "principal inp * rateR inp * 1 < principal inp * rateR inp * (growthR inp / (growthR inp - 1))"
    using pr by (simp only: mult_less_cancel_left_pos)
  then show ?thesis
    by (simp add: emiR_def)
qed

lemma balanceR_0:
  assumes "0 < interestRate inp" and "1 \<le> tenureYears inp"
  shows "balanceR inp 0 = principal inp"
  using growthR_gt_one [OF assms] by (simp add: balanceR_def)

lemma balanceR_Suc:
  "balanceR inp (Suc k) = balanceR inp k * (1 + rateR inp) - emiR inp"
proof -
  have "balanceR inp k * (1 + rateR inp) - emiR inp =
      (principal inp * (growthR inp - (1 + rateR inp) ^ k) * (1 + rateR inp)
        - principal inp * rateR inp * growthR inp) / (growthR inp - 1)"
    by (simp add: balanceR_def emiR_def diff_divide_distrib)
  also have "principal inp * (growthR inp - (1 + rateR inp) ^ k) * (1 + rateR inp)
        - principal inp * rateR inp * growthR inp
      = principal inp * (growthR inp - (1 + rateR inp) ^ Suc k)"
    by (simp add: algebra_simps)
  finally show ?thesis
    by (simp add: balanceR_def)
qed

lemma balanceR_end: "balanceR inp (nat (totalMonths inp)) = 0"
  by (simp add: balanceR_def growthR_def)

lemma balanceR_mono:
  assumes "0 < principal inp" and "0 < interestRate inp" and "1 \<le> tenureYears inp"
    and "j \<le> k"
  shows "balanceR inp k \<le> balanceR inp j"
proof -
  have g: "0 < growthR inp - 1"
    using growthR_gt_one [OF assms(2,3)] by simp
  have "(1 + rateR inp) ^ j \<le> (1 + rateR inp) ^ k"
    using rateR_pos [OF assms(2)] assms(4) by (simp add: power_increasing)
  then have "principal inp * (growthR inp - (1 + rateR inp) ^ k)
      \<le> principal inp * (growthR inp - (1 + rateR inp) ^ j)"
    using assms(1) by simp
  then show ?thesis
    using g by (simp add: balanceR_def divide_right_mono)
qed

lemma balanceR_nonneg:
  assumes "0 < principal inp" and "0 < interestRate inp" and "1 \<le> tenureYears inp"
    and "k \<le> nat (totalMonths inp)"
  shows "0 \<le> balanceR inp k"
  using balanceR_mono [OF assms] by (simp add: balanceR_end)

lemma balanceR_le_principal:
  assumes "0 < principal inp" and "0 < interestRate inp" and "1 \<le> tenureYears inp"
  shows "balanceR inp k \<le> principal inp"
  using balanceR_mono [OF assms, of 0 k] balanceR_0 [OF assms(2,3)] by simp

lemma emiR_pos:
  assumes "0 < principal inp" and "0 < interestRate inp" and "1 \<le> tenureYears inp"
  shows "0 < emiR inp"
proof -
  have "0 < principal inp * rateR inp"
    using assms(1) rateR_pos [OF assms(2)] by simp
  then show ?thesis
    using emiR_gt_interest [OF assms] by simp
qed

lemma totalBudget_pos_rate:
  assumes "0 < interestRate inp" and "1 \<le> tenureYears inp" and "1 \<le> mth"
  shows "totalBudgetThisMonth inp mth = Fin (budgetR inp mth)"
proof -
  have "1 \<le> yearOf mth"
    using assms(3) by (simp add: yearOf_div)
  then show ?thesis
    by (cases "yearOf mth = 1")
      (simp_all add: totalBudgetThisMonth_def currentMonthlyBudget_def extraPaymentBudget_def
        baseEmi_pos_rate [OF assms(1,2)] budgetR_def)
qed

lemma emiR_le_budgetR:
  assumes "validInput inp" and "0 < interestRate inp"
  shows "emiR inp \<le> budgetR inp mth"
proof -
  have v: "0 < principal inp" "1 \<le> tenureYears inp" "0 \<le> extraEmiPerYear inp"
    "0 \<le> stepUpPercentage inp"
    using assms(1) by (simp_all add: validInput_def)
  have e: "0 < emiR inp"
    by (rule emiR_pos [OF v(1) assms(2) v(2)])
  have "1 \<le> (1 + stepUpPercentage inp / 100) ^ nat (yearOf mth - 1)"
    using v(4) by (simp add: one_le_power)
  then have "emiR inp * 1 \<le> emiR inp * (1 + stepUpPercentage inp / 100) ^ nat (yearOf mth - 1)"
    using e by (simp only: mult_le_cancel_left_pos)
  moreover have "0 \<le> (if 0 < extraEmiPerYear inp \<and> mth mod 12 = 0
      then emiR inp * extraEmiPerYear inp else 0)"
    using e v(3) by simp
  ultimately show ?thesis
    unfolding budgetR_def by linarith
qed

subsection \<open>One month, field by field\<close>

lemma monthBody_regular_open:
  assumes "\<not> isRegularClosed s" and "balanceRegular s = Fin B" and "baseEmi inp = Fin E"
    and "monthlyRate inp = Fin r" and "0 \<le> B * (1 + r) - E"
  shows "balanceRegular (monthBody inp m s) = Fin (B * (1 + r) - E)"
    and "\<not> isRegularClosed (monthBody inp m s)"
    and "totalInterestRegular (monthBody inp m s) = jadd (totalInterestRegular s) (Fin (B * r))"
  using assms by (simp_all add: body_defs Let_def algebra_simps)

lemma monthBody_regular_closed:
  assumes "isRegularClosed s"
  shows "balanceRegular (monthBody inp m s) = balanceRegular s"
    and "isRegularClosed (monthBody inp m s)"
    and "totalInterestRegular (monthBody inp m s) = totalInterestRegular s"
    and "regularClosedMonth (monthBody inp m s) = regularClosedMonth s"
  using assms by (simp_all add: body_defs Let_def)

lemma monthBody_aggressive_stays_open:
  assumes "\<not> isAggressiveClosed s" and "balanceAggressive s = Fin a"
    and "totalBudgetThisMonth inp m = Fin b" and "monthlyRate inp = Fin r"
    and "0 \<le> a * (1 + r) - b"
  shows "balanceAggressive (monthBody inp m s) = Fin (a * (1 + r) - b)"
    and "\<not> isAggressiveClosed (monthBody inp m s)"
    and "totalInterestAggressive (monthBody inp m s) =
           jadd (totalInterestAggressive s) (Fin (a * r))"
    and "aggressiveClosedMonth (monthBody inp m s) = aggressiveClosedMonth s"
  using assms by (simp_all add: body_defs Let_def algebra_simps)

lemma monthBody_aggressive_closes:
  assumes "\<not> isAggressiveClosed s" and "balanceAggressive s = Fin a"
    and "totalBudgetThisMonth inp m = Fin b" and "monthlyRate inp = Fin r"
    and "a * (1 + r) - b < 0"
  shows "balanceAggressive (monthBody inp m s) = Fin 0"
    and "isAggressiveClosed (monthBody inp m s)"
    and "totalInterestAggressive (monthBody inp m s) =
           jadd (totalInterestAggressive s) (Fin (a * r))"
    and "aggressiveClosedMonth (monthBody inp m s) = m"
  using assms by (simp_all add: body_defs Let_def algebra_simps)

lemma monthBody_aggressive_closed:
  assumes "isAggressiveClosed s"
  shows "balanceAggressive (monthBody inp m s) = balanceAggressive s"
    and "isAggressiveClosed (monthBody inp m s)"
    and "totalInterestAggressive (monthBody inp m s) = totalInterestAggressive s"
    and "aggressiveClosedMonth (monthBody inp m s) = aggressiveClosedMonth s"
  using assms by (simp_all add: body_defs Let_def)

lemma monthBody_data:
  "\<exists>d. data (monthBody inp m s) = data s @ [d] \<and> md_month d = m
     \<and> md_loanBalanceRegular d = jmax (Fin 0) (balanceRegular (monthBody inp m s))
     \<and> md_loanBalanceAggressive d = jmax (Fin 0) (balanceAggressive (monthBody inp m s))"
  by (simp add: body_defs Let_def)

subsection \<open>The invariant of the balances and the interest\<close>

lemma posRateInv_init:
  assumes "0 < principal inp" and "0 < interestRate inp" and "1 \<le> tenureYears inp"
  shows "posRateInv inp 1 (initState inp)"
  using balanceR_0 [OF assms(2,3)] assms(1)
  by (simp add: posRateInv_def initState_def)

lemma posRateInv_step:
  assumes v: "validInput inp" and rate: "0 < interestRate inp"
    and m: "1 \<le> m" "m \<le> totalMonths inp"
    and inv: "posRateInv inp m s"
  shows "posRateInv inp (m + 1) (monthBody inp m s)"
proof -
  have p: "0 < principal inp" and t: "1 \<le> tenureYears inp"
    using v by (simp_all add: validInput_def)
  define k where "k = nat (m - 1)"
  define B where "B = balanceR inp k"
  define r where "r = rateR inp"
  define E where "E = emiR inp"
  define b where "b = budgetR inp m"
  have k': "nat (m + 1 - 1) = Suc k"
    using m(1) by (simp add: k_def nat_add_distrib)
  have kN: "Suc k \<le> nat (totalMonths inp)"
    using m by (simp add: k_def)
  have r0: "0 < r"
    unfolding r_def by (rule rateR_pos [OF rate])
  have B': "balanceR inp (Suc k) = B * (1 + r) - E"
    unfolding B_def r_def E_def by (rule balanceR_Suc)
  have B'0: "0 \<le> B * (1 + r) - E"
    using balanceR_nonneg [OF p rate t kN] B' by simp
  have B0: "0 \<le> B"
    unfolding B_def using kN by (intro balanceR_nonneg [OF p rate t]) simp
  have Eb: "E \<le> b"
    unfolding E_def b_def by (rule emiR_le_budgetR [OF v rate])
  have emi: "baseEmi inp = Fin E"
    unfolding E_def by (rule baseEmi_pos_rate [OF rate t])
  have mr: "monthlyRate inp = Fin r"
    by (simp add: monthlyRate_Fin r_def rateR_def)
  have bud: "totalBudgetThisMonth inp m = Fin b"
    unfolding b_def by (rule totalBudget_pos_rate [OF rate t m(1)])
  from inv obtain a iR iA where
    bR: "balanceRegular s = Fin B" and oR: "\<not> isRegularClosed s"
    and bA: "balanceAggressive s = Fin a" and a0: "0 \<le> a" and aB: "a \<le> B"
    and cA: "isAggressiveClosed s \<longrightarrow> a = 0"
    and tR: "totalInterestRegular s = Fin iR" and tA: "totalInterestAggressive s = Fin iA"
    and i0: "0 \<le> iA" and iAR: "iA \<le> iR"
    unfolding posRateInv_def k_def [symmetric] B_def [symmetric] by blast
  note reg = monthBody_regular_open [OF oR bR emi mr B'0, of m]
  have regular: "balanceRegular (monthBody inp m s) = Fin (balanceR inp (Suc k))"
    "\<not> isRegularClosed (monthBody inp m s)"
    "totalInterestRegular (monthBody inp m s) = Fin (iR + B * r)"
    using reg by (simp_all add: B' tR)
  have Br: "a * r \<le> B * r" "0 \<le> a * r" "0 \<le> B * r"
    using aB a0 B0 r0 by (simp_all add: mult_right_mono)
  have "\<exists>a' iA'. balanceAggressive (monthBody inp m s) = Fin a' \<and> 0 \<le> a'
      \<and> a' \<le> balanceR inp (Suc k) \<and> (isAggressiveClosed (monthBody inp m s) \<longrightarrow> a' = 0)
      \<and> totalInterestAggressive (monthBody inp m s) = Fin iA' \<and> 0 \<le> iA'
      \<and> iA' \<le> iR + B * r"
  proof (cases "isAggressiveClosed s")
    case True
    then have "a = 0"
      using cA by simp
    then show ?thesis
      using monthBody_aggressive_closed [OF True, of inp m] bA tA i0 iAR Br(3) B'0 B'
      by simp
  next
    case False
    show ?thesis
    proof (cases "0 \<le> a * (1 + r) - b")
      case True
      have "a * (1 + r) \<le> B * (1 + r)"
        using aB r0 by (simp add: mult_right_mono)
      then have "a * (1 + r) - b \<le> B * (1 + r) - E"
        using Eb by linarith
      then show ?thesis
        using monthBody_aggressive_stays_open [OF False bA bud mr True] True tA i0 iAR Br B'
        by simp
    next
      case closes: False
      then have "a * (1 + r) - b < 0"
        by simp
      then show ?thesis
        using monthBody_aggressive_closes [OF False bA bud mr] tA i0 iAR Br B'0 B'
        by simp
    qed
  qed
  then show ?thesis
    unfolding posRateInv_def k' using regular by blast
qed

lemma posRateInv_final:
  assumes v: "validInput inp" and rate: "0 < interestRate inp"
  shows "posRateInv inp (totalMonths inp + 1) (finalState inp)"
proof -
  have p: "0 < principal inp" and t: "1 \<le> tenureYears inp"
    using v by (simp_all add: validInput_def)
  let ?P = "\<lambda>m (s::State). 1 \<le> m \<and> posRateInv inp m s"
  have "?P (max 1 (totalMonths inp + 1)) (loop inp 1 (initState inp))"
  proof (rule loop_invariant)
    show "?P 1 (initState inp)"
      using posRateInv_init [OF p rate t] by simp
  next
    fix m s
    assume "?P m s" and "m \<le> totalMonths inp"
    then show "?P (m + 1) (monthBody inp m s)"
      using posRateInv_step [OF v rate] by simp
  qed
  moreover have "max 1 (totalMonths inp + 1) = totalMonths inp + 1"
    using t by (simp add: totalMonths_def)
  ultimately show ?thesis
    by (simp add: finalState_def)
qed

text \<open>
  On exact reals: for a valid input with a positive interest rate the aggressive strategy
  pays at most the interest of the regular one.
\<close>

lemma interest_le_pos_rate:
  assumes "validInput inp" and "0 < interestRate inp"
  shows "jle (aggressiveTotalInterest (summary (calculateScenario inp)))
             (regularTotalInterest (summary (calculateScenario inp)))"
  using posRateInv_final [OF assms]
  by (auto simp add: posRateInv_def calculateScenario_def summarise_def Let_def)

subsection \<open>The invariant of the snapshots\<close>

lemma jle_Fin_trans: "x \<le> y \<Longrightarrow> jle (Fin y) z \<Longrightarrow> jle (Fin x) z"
  by (cases z) simp_all

lemma nonIncreasing_snoc:
  "nonIncreasing xs \<Longrightarrow> list_all (jle y) xs \<Longrightarrow> nonIncreasing (xs @ [y])"
  by (induction xs rule: nonIncreasing.induct) simp_all

text \<open>What one month does to the loan of strategy B.\<close>

lemma aggressive_transition:
  assumes v: "validInput inp" and rate: "0 < interestRate inp"
    and m: "1 \<le> m" "m \<le> totalMonths inp"
    and inv: "posRateInv inp m s"
  shows "\<exists>a a'. balanceAggressive s = Fin a \<and> balanceAggressive (monthBody inp m s) = Fin a'
      \<and> a' \<le> a
      \<and> (isAggressiveClosed s \<longrightarrow> isAggressiveClosed (monthBody inp m s)
            \<and> aggressiveClosedMonth (monthBody inp m s) = aggressiveClosedMonth s)
      \<and> (\<not> isAggressiveClosed s \<and> isAggressiveClosed (monthBody inp m s) \<longrightarrow>
            aggressiveClosedMonth (monthBody inp m s) = m)"
proof -
  have p: "0 < principal inp" and t: "1 \<le> tenureYears inp"
    using v by (simp_all add: validInput_def)
  define r where "r = rateR inp"
  define b where "b = budgetR inp m"
  have r0: "0 < r"
    unfolding r_def by (rule rateR_pos [OF rate])
  have mr: "monthlyRate inp = Fin r"
    by (simp add: monthlyRate_Fin r_def rateR_def)
  have bud: "totalBudgetThisMonth inp m = Fin b"
    unfolding b_def by (rule totalBudget_pos_rate [OF rate t m(1)])
  from inv obtain a where bA: "balanceAggressive s = Fin a" and a0: "0 \<le> a"
    and aB: "a \<le> balanceR inp (nat (m - 1))"
    unfolding posRateInv_def by blast
  have "a \<le> principal inp"
    using aB balanceR_le_principal [OF p rate t, of "nat (m - 1)"] by simp
  then have "a * r \<le> principal inp * r"
    using r0 by (simp add: mult_right_mono)
  also have "\<dots> < emiR inp"
    unfolding r_def by (rule emiR_gt_interest [OF p rate t])
  also have "\<dots> \<le> b"
    unfolding b_def by (rule emiR_le_budgetR [OF v rate])
  finally have ar: "a * r < b" .
  show ?thesis
  proof (cases "isAggressiveClosed s")
    case True
    then show ?thesis
      using monthBody_aggressive_closed [OF True, of inp m] bA by simp
  next
    case False
    show ?thesis
    proof (cases "0 \<le> a * (1 + r) - b")
      case True
      have "a * (1 + r) - b \<le> a"
        using ar by (simp add: algebra_simps)
      then show ?thesis
        using monthBody_aggressive_stays_open [OF False bA bud mr True] False bA by simp
    next
      case closes: False
      then have "a * (1 + r) - b < 0"
        by simp
      then show ?thesis
        using monthBody_aggressive_closes [OF False bA bud mr] False bA a0 by simp
    qed
  qed
qed

lemma snapshotInv_step:
  assumes v: "validInput inp" and rate: "0 < interestRate inp"
    and m: "1 \<le> m" "m \<le> totalMonths inp"
    and inv: "posRateInv inp m s" and snap: "snapshotInv m s"
  shows "snapshotInv (m + 1) (monthBody inp m s)"
proof -
  have p: "0 < principal inp" and t: "1 \<le> tenureYears inp"
    using v by (simp_all add: validInput_def)
  let ?s' = "monthBody inp m s"
  define B where "B = balanceR inp (nat (m - 1))"
  define B' where "B' = balanceR inp (nat (m + 1 - 1))"
  have inv': "posRateInv inp (m + 1) ?s'"
    by (rule posRateInv_step [OF v rate m inv])
  have BB: "B' \<le> B"
    unfolding B_def B'_def using m(1) by (intro balanceR_mono [OF p rate t]) simp
  have N: "nat (m + 1 - 1) \<le> nat (totalMonths inp)"
    using m by simp
  have B'0: "0 \<le> B'"
    unfolding B'_def by (rule balanceR_nonneg [OF p rate t N])
  have bR: "balanceRegular s = Fin B"
    using inv by (simp add: posRateInv_def B_def)
  have bR': "balanceRegular ?s' = Fin B'"
    using inv' by (simp add: posRateInv_def B'_def)
  from inv' obtain a0' where bA0': "balanceAggressive ?s' = Fin a0'" and a0'0: "0 \<le> a0'"
    and cA': "isAggressiveClosed ?s' \<longrightarrow> a0' = 0"
    unfolding posRateInv_def by blast
  from aggressive_transition [OF v rate m inv] obtain a a' where
    bA: "balanceAggressive s = Fin a" and bA': "balanceAggressive ?s' = Fin a'"
    and aa: "a' \<le> a"
    and stay: "isAggressiveClosed s \<longrightarrow> isAggressiveClosed ?s'
           \<and> aggressiveClosedMonth ?s' = aggressiveClosedMonth s"
    and fresh: "\<not> isAggressiveClosed s \<and> isAggressiveClosed ?s' \<longrightarrow>
           aggressiveClosedMonth ?s' = m"
    by blast
  have a': "a0' = a'"
    using bA0' bA' by simp
  from monthBody_data [of inp m s] obtain d where
    d: "data ?s' = data s @ [d]" "md_month d = m"
      "md_loanBalanceRegular d = Fin B'" "md_loanBalanceAggressive d = Fin a'"
    using bR' bA' B'0 a0'0 a' by auto
  have old: "list_all
           (\<lambda>d. jle (Fin B) (md_loanBalanceRegular d)
              \<and> jle (Fin a) (md_loanBalanceAggressive d)
              \<and> md_month d < m
              \<and> (isAggressiveClosed s \<and> aggressiveClosedMonth s \<le> md_month d \<longrightarrow>
                    md_loanBalanceAggressive d = Fin 0))
           (data s)"
    using snap unfolding snapshotInv_def bR bA by (simp add: list_all_iff)
  have nR: "nonIncreasing (map md_loanBalanceRegular (data ?s'))"
  proof -
    have "list_all (jle (Fin B')) (map md_loanBalanceRegular (data s))"
      using old BB by (auto simp add: list_all_iff intro: jle_Fin_trans)
    then show ?thesis
      using snap nonIncreasing_snoc d by (simp add: snapshotInv_def)
  qed
  have nA: "nonIncreasing (map md_loanBalanceAggressive (data ?s'))"
  proof -
    have "list_all (jle (Fin a')) (map md_loanBalanceAggressive (data s))"
      using old aa by (auto simp add: list_all_iff intro: jle_Fin_trans)
    then show ?thesis
      using snap nonIncreasing_snoc d by (simp add: snapshotInv_def)
  qed
  have new: "list_all
           (\<lambda>d. jle (Fin B') (md_loanBalanceRegular d)
              \<and> jle (Fin a') (md_loanBalanceAggressive d)
              \<and> md_month d < m + 1
              \<and> (md_month d = m + 1 - 1 \<longrightarrow>
                    md_loanBalanceRegular d = Fin B' \<and> md_loanBalanceAggressive d = Fin a')
              \<and> (isAggressiveClosed ?s' \<and> aggressiveClosedMonth ?s' \<le> md_month d \<longrightarrow>
                    md_loanBalanceAggressive d = Fin 0))
           (data s)"
    unfolding list_all_iff
  proof
    fix x
    assume "x \<in> set (data s)"
    with old have x: "jle (Fin B) (md_loanBalanceRegular x)"
      "jle (Fin a) (md_loanBalanceAggressive x)" "md_month x < m"
      "isAggressiveClosed s \<and> aggressiveClosedMonth s \<le> md_month x \<longrightarrow>
         md_loanBalanceAggressive x = Fin 0"
      by (simp_all add: list_all_iff)
    have "isAggressiveClosed ?s' \<and> aggressiveClosedMonth ?s' \<le> md_month x \<longrightarrow>
        md_loanBalanceAggressive x = Fin 0"
      using x(3,4) stay fresh by (cases "isAggressiveClosed s") auto
    then show "jle (Fin B') (md_loanBalanceRegular x)
        \<and> jle (Fin a') (md_loanBalanceAggressive x)
        \<and> md_month x < m + 1
        \<and> (md_month x = m + 1 - 1 \<longrightarrow>
              md_loanBalanceRegular x = Fin B' \<and> md_loanBalanceAggressive x = Fin a')
        \<and> (isAggressiveClosed ?s' \<and> aggressiveClosedMonth ?s' \<le> md_month x \<longrightarrow>
              md_loanBalanceAggressive x = Fin 0)"
      using x(1-3) jle_Fin_trans [OF BB] jle_Fin_trans [OF aa] by simp
  qed
  have last: "isAggressiveClosed ?s' \<longrightarrow> a' = 0"
    using cA' a' by simp
  show ?thesis
    unfolding snapshotInv_def bR' bA'
    using nR nA new last d by simp
qed

lemma bothInv_final:
  assumes v: "validInput inp" and rate: "0 < interestRate inp"
  shows "posRateInv inp (totalMonths inp + 1) (finalState inp)
       \<and> snapshotInv (totalMonths inp + 1) (finalState inp)"
proof -
  have p: "0 < principal inp" and t: "1 \<le> tenureYears inp"
    using v by (simp_all add: validInput_def)
  let ?P = "\<lambda>m (s::State). 1 \<le> m \<and> posRateInv inp m s \<and> snapshotInv m s"
  have "?P (max 1 (totalMonths inp + 1)) (loop inp 1 (initState inp))"
  proof (rule loop_invariant)
    show "?P 1 (initState inp)"
      using posRateInv_init [OF p rate t] by (simp add: snapshotInv_def initState_def)
  next
    fix m s
    assume "?P m s" and "m \<le> totalMonths inp"
    then show "?P (m + 1) (monthBody inp m s)"
      using posRateInv_step [OF v rate] snapshotInv_step [OF v rate] by simp
  qed
  moreover have "max 1 (totalMonths inp + 1) = totalMonths inp + 1"
    using t by (simp add: totalMonths_def)
  ultimately show ?thesis
    by (simp add: finalState_def)
qed

text \<open>
  On exact reals: for a valid input with a positive interest rate the balances of the
  snapshots never increase, and they are 0 from the month that the summary reports as the
  closing month.
\<close>

lemma balances_pos_rate:
  assumes v: "validInput inp" and rate: "0 < interestRate inp"
  shows "nonIncreasing (map md_loanBalanceRegular (monthlyData (calculateScenario inp)))"
    and "nonIncreasing (map md_loanBalanceAggressive (monthlyData (calculateScenario inp)))"
    and "list_all
           (\<lambda>d. (regularTenureMonths (summary (calculateScenario inp)) \<le> md_month d \<longrightarrow>
                   md_loanBalanceRegular d = Fin 0)
              \<and> (aggressiveTenureMonths (summary (calculateScenario inp)) \<le> md_month d \<longrightarrow>
                   md_loanBalanceAggressive d = Fin 0))
           (monthlyData (calculateScenario inp))"
proof -
  let ?s = "finalState inp"
  let ?N = "totalMonths inp"
  have inv: "posRateInv inp (?N + 1) ?s" and snap: "snapshotInv (?N + 1) ?s"
    using bothInv_final [OF assms] by simp_all
  have res: "monthlyData (calculateScenario inp) = data ?s"
    "regularTenureMonths (summary (calculateScenario inp)) = regularClosedMonth ?s"
    "aggressiveTenureMonths (summary (calculateScenario inp)) = aggressiveClosedMonth ?s"
    by (simp_all add: calculateScenario_def summarise_def Let_def)
  show "nonIncreasing (map md_loanBalanceRegular (monthlyData (calculateScenario inp)))"
    and "nonIncreasing (map md_loanBalanceAggressive (monthlyData (calculateScenario inp)))"
    using snap by (simp_all add: res snapshotInv_def)
  have "1 \<le> tenureYears inp"
    using v by (simp add: validInput_def)
  then have "nat (?N + 1 - 1) = nat ?N"
    by simp
  then have bR: "balanceRegular ?s = Fin 0" and oR: "\<not> isRegularClosed ?s"
    using inv by (simp_all add: posRateInv_def balanceR_end)
  from inv obtain a where bA: "balanceAggressive ?s = Fin a" and "0 \<le> a"
    and "a \<le> balanceR inp (nat (?N + 1 - 1))"
    unfolding posRateInv_def by blast
  then have bA0: "balanceAggressive ?s = Fin 0"
    using \<open>nat (?N + 1 - 1) = nat ?N\<close> by (simp add: balanceR_end)
  have cR: "regularClosedMonth ?s = ?N"
    using closedMonth_final [of inp] oR by simp
  have cA: "\<not> isAggressiveClosed ?s \<longrightarrow> aggressiveClosedMonth ?s = ?N"
    using closedMonth_final [of inp] by simp
  show "list_all
           (\<lambda>d. (regularTenureMonths (summary (calculateScenario inp)) \<le> md_month d \<longrightarrow>
                   md_loanBalanceRegular d = Fin 0)
              \<and> (aggressiveTenureMonths (summary (calculateScenario inp)) \<le> md_month d \<longrightarrow>
                   md_loanBalanceAggressive d = Fin 0))
           (monthlyData (calculateScenario inp))"
    unfolding res list_all_iff
  proof
    fix d
    assume "d \<in> set (data ?s)"
    with snap have d: "md_month d < ?N + 1"
      "md_month d = ?N + 1 - 1 \<longrightarrow>
         md_loanBalanceRegular d = Fin 0 \<and> md_loanBalanceAggressive d = Fin 0"
      "isAggressiveClosed ?s \<and> aggressiveClosedMonth ?s \<le> md_month d \<longrightarrow>
         md_loanBalanceAggressive d = Fin 0"
      unfolding snapshotInv_def bR bA0 by (simp_all add: list_all_iff)
    show "(regularClosedMonth ?s \<le> md_month d \<longrightarrow> md_loanBalanceRegular d = Fin 0)
        \<and> (aggressiveClosedMonth ?s \<le> md_month d \<longrightarrow> md_loanBalanceAggressive d = Fin 0)"
      using d cR cA by (cases "isAggressiveClosed ?s") auto
  qed
qed

subsection \<open>Neither an extra installment nor a step-up\<close>

lemma budgetR_flat:
  "extraEmiPerYear inp = 0 \<Longrightarrow> stepUpPercentage inp = 0 \<Longrightarrow> budgetR inp mth = emiR inp"
  by (simp add: budgetR_def)

lemma monthBody_flat:
  assumes "\<not> isRegularClosed s" and "\<not> isAggressiveClosed s"
    and "balanceRegular s = Fin B" and "balanceAggressive s = Fin B"
    and "baseEmi inp = Fin E" and "totalBudgetThisMonth inp m = Fin E"
    and "monthlyRate inp = Fin r" and "0 \<le> B * (1 + r) - E"
    and "sipValueRegular s = Fin 0" and "sipValueAggressive s = Fin 0"
  shows "balanceRegular (monthBody inp m s) = Fin (B * (1 + r) - E)"
    and "balanceAggressive (monthBody inp m s) = Fin (B * (1 + r) - E)"
    and "\<not> isRegularClosed (monthBody inp m s)"
    and "\<not> isAggressiveClosed (monthBody inp m s)"
    and "sipValueRegular (monthBody inp m s) = Fin 0"
    and "sipValueAggressive (monthBody inp m s) = Fin 0"
  using assms by (simp_all add: body_defs Let_def jgt_def sipMonthlyRate_Fin algebra_simps)

lemma flatInv_step:
  assumes v: "validInput inp" and rate: "0 < interestRate inp"
    and flat: "extraEmiPerYear inp = 0" "stepUpPercentage inp = 0"
    and m: "1 \<le> m" "m \<le> totalMonths inp"
    and inv: "flatInv inp m s"
  shows "flatInv inp (m + 1) (monthBody inp m s)"
proof -
  have p: "0 < principal inp" and t: "1 \<le> tenureYears inp"
    using v by (simp_all add: validInput_def)
  define k where "k = nat (m - 1)"
  have k': "nat (m + 1 - 1) = Suc k"
    using m(1) by (simp add: k_def nat_add_distrib)
  have kN: "Suc k \<le> nat (totalMonths inp)"
    using m by (simp add: k_def)
  have B'0: "0 \<le> balanceR inp k * (1 + rateR inp) - emiR inp"
    using balanceR_nonneg [OF p rate t kN] by (simp add: balanceR_Suc)
  have emi: "baseEmi inp = Fin (emiR inp)"
    by (rule baseEmi_pos_rate [OF rate t])
  have mr: "monthlyRate inp = Fin (rateR inp)"
    by (simp add: monthlyRate_Fin rateR_def)
  have bud: "totalBudgetThisMonth inp m = Fin (emiR inp)"
    using totalBudget_pos_rate [OF rate t m(1)] by (simp add: budgetR_flat [OF flat])
  have s: "\<not> isRegularClosed s" "\<not> isAggressiveClosed s"
    "balanceRegular s = Fin (balanceR inp k)" "balanceAggressive s = Fin (balanceR inp k)"
    "sipValueRegular s = Fin 0" "sipValueAggressive s = Fin 0"
    using inv by (simp_all add: flatInv_def k_def)
  show ?thesis
    unfolding flatInv_def k'
    using monthBody_flat [OF s(1-4) emi bud mr B'0 s(5,6)]
    by (simp add: balanceR_Suc)
qed

lemma flatInv_final:
  assumes v: "validInput inp" and rate: "0 < interestRate inp"
    and flat: "extraEmiPerYear inp = 0" "stepUpPercentage inp = 0"
  shows "flatInv inp (totalMonths inp + 1) (finalState inp)"
proof -
  have p: "0 < principal inp" and t: "1 \<le> tenureYears inp"
    using v by (simp_all add: validInput_def)
  let ?P = "\<lambda>m (s::State). 1 \<le> m \<and> flatInv inp m s"
  have "?P (max 1 (totalMonths inp + 1)) (loop inp 1 (initState inp))"
  proof (rule loop_invariant)
    show "?P 1 (initState inp)"
      using balanceR_0 [OF rate t] by (simp add: flatInv_def initState_def)
  next
    fix m s
    assume "?P m s" and "m \<le> totalMonths inp"
    then show "?P (m + 1) (monthBody inp m s)"
      using flatInv_step [OF v rate flat] by simp
  qed
  moreover have "max 1 (totalMonths inp + 1) = totalMonths inp + 1"
    using t by (simp add: totalMonths_def)
  ultimately show ?thesis
    by (simp add: finalState_def)
qed

text \<open>
  On exact reals: for a valid input with a positive interest rate, no extra installment and
  no step-up the final wealth of both strategies is 0, whatever the tenure. The rounded
  numbers of the program can close the loan of strategy A by the clamp in the last month,
  and then strategy A invests the whole budget of that month.
\<close>

lemma final_wealth_flat_pos_rate:
  assumes "validInput inp" and "0 < interestRate inp"
    and "extraEmiPerYear inp = 0" and "stepUpPercentage inp = 0"
  shows "finalWealthRegular (summary (calculateScenario inp)) = Fin 0"
    and "finalWealthAggressive (summary (calculateScenario inp)) = Fin 0"
proof -
  have "1 \<le> tenureYears inp"
    using assms(1) by (simp add: validInput_def)
  then have "nat (totalMonths inp + 1 - 1) = nat (totalMonths inp)"
    by simp
  then have "balanceRegular (finalState inp) = Fin 0" "balanceAggressive (finalState inp) = Fin 0"
    "sipValueRegular (finalState inp) = Fin 0" "sipValueAggressive (finalState inp) = Fin 0"
    using flatInv_final [OF assms] by (simp_all add: flatInv_def balanceR_end)
  then show "finalWealthRegular (summary (calculateScenario inp)) = Fin 0"
    and "finalWealthAggressive (summary (calculateScenario inp)) = Fin 0"
    by (simp_all add: calculateScenario_def summarise_def Let_def)
qed

subsection \<open>No \<open>NaN\<close> and no infinity\<close>

lemma isFin_iff: "isFin x = (\<exists>a. x = Fin a)"
  by (cases x) simp_all

lemma finiteState_step:
  assumes "baseEmi inp = Fin E" and "monthlyRate inp = Fin r"
    and "totalBudgetThisMonth inp m = Fin b" and "finiteState s"
  shows "finiteState (monthBody inp m s)"
proof -
  from assms(4) obtain bR bA sR sA tR tA iR iA where
    "balanceRegular s = Fin bR" "balanceAggressive s = Fin bA"
    "sipValueRegular s = Fin sR" "sipValueAggressive s = Fin sA"
    "totalInvestedRegular s = Fin tR" "totalInvestedAggressive s = Fin tA"
    "totalInterestRegular s = Fin iR" "totalInterestAggressive s = Fin iA"
    and "list_all finiteSnapshot (data s)"
    unfolding finiteState_def isFin_iff by blast
  then show ?thesis
    using assms(1-3)
    by (simp add: finiteState_def finiteSnapshot_def body_defs Let_def jgt_def
        sipMonthlyRate_Fin)
qed

text \<open>
  On exact reals: for a valid input with a positive interest rate every number of the
  result is finite.
\<close>

lemma finite_result_pos_rate:
  assumes v: "validInput inp" and rate: "0 < interestRate inp"
  shows "finiteSummary (summary (calculateScenario inp))"
    and "list_all finiteSnapshot (monthlyData (calculateScenario inp))"
proof -
  have t: "1 \<le> tenureYears inp"
    using v by (simp add: validInput_def)
  let ?P = "\<lambda>(m::int) (s::State). 1 \<le> m \<and> finiteState s"
  have "?P (max 1 (totalMonths inp + 1)) (loop inp 1 (initState inp))"
  proof (rule loop_invariant)
    show "?P 1 (initState inp)"
      by (simp add: finiteState_def initState_def)
  next
    fix m s
    assume "?P m s" and "m \<le> totalMonths inp"
    then show "?P (m + 1) (monthBody inp m s)"
      using finiteState_step [OF baseEmi_pos_rate [OF rate t] monthlyRate_Fin
          totalBudget_pos_rate [OF rate t]]
      by simp
  qed
  then have fin: "finiteState (finalState inp)"
    by (simp add: finalState_def)
  then obtain bR bA sR sA tR tA iR iA where
    "balanceRegular (finalState inp) = Fin bR" "balanceAggressive (finalState inp) = Fin bA"
    "sipValueRegular (finalState inp) = Fin sR" "sipValueAggressive (finalState inp) = Fin sA"
    "totalInvestedRegular (finalState inp) = Fin tR"
    "totalInvestedAggressive (finalState inp) = Fin tA"
    "totalInterestRegular (finalState inp) = Fin iR"
    "totalInterestAggressive (finalState inp) = Fin iA"
    unfolding finiteState_def isFin_iff by blast
  then show "finiteSummary (summary (calculateScenario inp))"
    by (simp add: finiteSummary_def calculateScenario_def summarise_def Let_def)
  show "list_all finiteSnapshot (monthlyData (calculateScenario inp))"
    using fin by (simp add: finiteState_def calculateScenario_def summarise_def Let_def)
qed

section \<open>The claims that fail at an interest rate of 0\<close>

lemma NaN_not_nonIncreasing:
  assumes "list_all (\<lambda>d. f d = NaN) ds" and "2 \<le> length ds"
  shows "\<not> nonIncreasing (map f ds)"
proof -
  from assms(2) obtain d1 d2 rest where "ds = d1 # d2 # rest"
    by (cases ds; cases "tl ds") auto
  with assms(1) show ?thesis
    by simp
qed

lemma length_monthlyData:
  "length (monthlyData (calculateScenario inp)) = nat (tenureYears inp * 12)"
  by (simp add: calculateScenario_def summarise_def Let_def length_finalState totalMonths_def)

text \<open>
  C7. The loan balances of the snapshots should never increase and should be 0 from the
  closing month on. For a loan of 5,000,000 over 20 years at the rate 0 every balance of
  every snapshot is \<open>NaN\<close>: the sequences are not non-increasing (\<open>NaN <= NaN\<close> is
  false), and in month 240, which the summary reports as the closing month of both
  strategies, the balances are not 0. At a positive rate the property holds on exact reals
  (\<open>balances_pos_rate\<close>), and a closed loan is left as it is at every rate
  (\<open>monthBody_regular_closed\<close>, \<open>monthBody_aggressive_closed\<close>).
\<close>

theorem C7_zero_rate_balances_are_NaN:
  "validInput exZeroRateStepUp
   \<and> list_all (\<lambda>d. md_loanBalanceRegular d = NaN \<and> md_loanBalanceAggressive d = NaN)
     (monthlyData (calculateScenario exZeroRateStepUp))
   \<and> \<not> nonIncreasing (map md_loanBalanceRegular (monthlyData (calculateScenario exZeroRateStepUp)))
   \<and> \<not> nonIncreasing
        (map md_loanBalanceAggressive (monthlyData (calculateScenario exZeroRateStepUp)))
   \<and> regularTenureMonths (summary (calculateScenario exZeroRateStepUp)) = 240
   \<and> aggressiveTenureMonths (summary (calculateScenario exZeroRateStepUp)) = 240
   \<and> md_month (last (monthlyData (calculateScenario exZeroRateStepUp))) = 240
   \<and> md_loanBalanceRegular (last (monthlyData (calculateScenario exZeroRateStepUp))) = NaN
   \<and> md_loanBalanceAggressive (last (monthlyData (calculateScenario exZeroRateStepUp))) = NaN"
proof -
  let ?ds = "monthlyData (calculateScenario exZeroRateStepUp)"
  have z: "interestRate exZeroRateStepUp = 0" "1 \<le> tenureYears exZeroRateStepUp"
    by (simp_all add: exZeroRateStepUp_def)
  have all: "list_all (\<lambda>d. md_loanBalanceRegular d = NaN \<and> md_loanBalanceAggressive d = NaN) ?ds"
    by (rule zeroRate_result(5) [OF z])
  have len: "length ?ds = 240"
    by (simp add: length_monthlyData exZeroRateStepUp_def)
  have allR: "list_all (\<lambda>d. md_loanBalanceRegular d = NaN) ?ds"
    and allA: "list_all (\<lambda>d. md_loanBalanceAggressive d = NaN) ?ds"
    using all by (simp_all add: list_all_iff)
  have ne: "?ds \<noteq> []"
    using len by auto
  then have "last ?ds \<in> set ?ds"
    by simp
  with all have lastNaN: "md_loanBalanceRegular (last ?ds) = NaN"
    "md_loanBalanceAggressive (last ?ds) = NaN"
    by (simp_all add: list_all_iff)
  have "map md_month ?ds = [1..240]"
    using months_finalState [of exZeroRateStepUp]
    by (simp add: calculateScenario_def summarise_def Let_def totalMonths_def exZeroRateStepUp_def)
  then have "last (map md_month ?ds) = 240"
    by (simp add: upto_rec2 [of 1 240])
  then have lastM: "md_month (last ?ds) = 240"
    using ne by (simp add: last_map)
  have closed: "\<not> isRegularClosed (finalState exZeroRateStepUp)"
    "\<not> isAggressiveClosed (finalState exZeroRateStepUp)"
    using zeroRate_final [OF z] by (simp_all add: zeroRateInv_def totalMonths_def exZeroRateStepUp_def)
  have ten: "regularTenureMonths (summary (calculateScenario exZeroRateStepUp)) = 240"
    "aggressiveTenureMonths (summary (calculateScenario exZeroRateStepUp)) = 240"
    using closedMonth_final [of exZeroRateStepUp] closed
    by (simp_all add: calculateScenario_def summarise_def Let_def totalMonths_def
        exZeroRateStepUp_def)
  have "validInput exZeroRateStepUp"
    by (simp add: validInput_def exZeroRateStepUp_def)
  then show ?thesis
    using all NaN_not_nonIncreasing [OF allR] NaN_not_nonIncreasing [OF allA] len ten lastM lastNaN
    by simp
qed

text \<open>
  C8. The interest total of the aggressive strategy should be at most that of the regular
  one. For a loan of 5,000,000 over 5 years at the rate 0 both totals are \<open>NaN\<close>, and
  \<open>NaN <= NaN\<close> is false. At a positive rate the property holds on exact reals
  (\<open>interest_le_pos_rate\<close>).
\<close>

theorem C8_zero_rate_interest_is_NaN:
  "validInput exZeroRatePrepay
   \<and> aggressiveTotalInterest (summary (calculateScenario exZeroRatePrepay)) = NaN
   \<and> regularTotalInterest (summary (calculateScenario exZeroRatePrepay)) = NaN
   \<and> \<not> jle (aggressiveTotalInterest (summary (calculateScenario exZeroRatePrepay)))
            (regularTotalInterest (summary (calculateScenario exZeroRatePrepay)))"
proof -
  have z: "interestRate exZeroRatePrepay = 0" "1 \<le> tenureYears exZeroRatePrepay"
    by (simp_all add: exZeroRatePrepay_def)
  have "validInput exZeroRatePrepay"
    by (simp add: validInput_def exZeroRatePrepay_def)
  then show ?thesis
    by (simp add: zeroRate_result(1,2) [OF z])
qed

text \<open>
  C9. With a tenure of one year, no extra installment and no step-up the two final wealth
  figures should be equal. For such a loan of 1,200,000 at the rate 0 both are \<open>NaN\<close>,
  which is equal to nothing, itself included; neither is the 0 that a flat installment of
  100,000 a month would leave. At a positive rate both are 0 on exact reals
  (\<open>final_wealth_flat_pos_rate\<close>).
\<close>

theorem C9_zero_rate_final_wealth_is_NaN:
  "validInput exZeroRateYear
   \<and> tenureYears exZeroRateYear = 1 \<and> extraEmiPerYear exZeroRateYear = 0
   \<and> stepUpPercentage exZeroRateYear = 0
   \<and> finalWealthRegular (summary (calculateScenario exZeroRateYear)) = NaN
   \<and> finalWealthAggressive (summary (calculateScenario exZeroRateYear)) = NaN
   \<and> \<not> jeq (finalWealthRegular (summary (calculateScenario exZeroRateYear)))
            (finalWealthAggressive (summary (calculateScenario exZeroRateYear)))"
proof -
  have z: "interestRate exZeroRateYear = 0" "1 \<le> tenureYears exZeroRateYear"
    by (simp_all add: exZeroRateYear_def)
  have "validInput exZeroRateYear"
    by (simp add: validInput_def exZeroRateYear_def)
  then show ?thesis
    by (simp add: zeroRate_result(3,4) [OF z]) (simp add: exZeroRateYear_def)
qed

end
